theory Spec2Isabelle
  imports Main "HOL-Library.Word"
begin

unbundle bit_operations_syntax

section \<open>Bytes and errors\<close>

text \<open>
  A Go \<^verbatim>\<open>[]byte\<close> is a list of 8-bit words. A Go \<^verbatim>\<open>error\<close> is either made by
  \<^verbatim>\<open>errors.New(msg)\<close> or wraps another error with \<^verbatim>\<open>fmt.Errorf(msg + ": %w", err)\<close>.
  \<open>PathError op err\<close> is the library's \<^verbatim>\<open>*fs.PathError{Op, Path, Err}\<close>; its path is the
  name the file was opened under, which a file modelled as its contents does not carry.
  A run-time panic (here only \<^verbatim>\<open>make([]byte, n)\<close> with a negative length) is kept as
  a further constructor, so that it is a branch of the model.
\<close>

type_synonym byte = "8 word"
type_synonym bytes = "byte list"

datatype error = New string | Errorf string error | PathError string error | Panic string

section \<open>The Transformer (vfs/transformer.go)\<close>

text \<open>
  The two capability interfaces are records of their methods. The embedded interface
  fields of \<^verbatim>\<open>Transformer\<close> may be \<^verbatim>\<open>nil\<close>: they are options. \<^verbatim>\<open>flags\<close> is a Go
  \<^verbatim>\<open>int\<close> (64 bits).
\<close>

record Compressor =
  Compress :: "bytes \<Rightarrow> error + bytes"
  Decompress :: "bytes \<Rightarrow> error + bytes"

record Encryptor =
  Encode :: "bytes \<Rightarrow> bytes \<Rightarrow> error + bytes"
  Decode :: "bytes \<Rightarrow> bytes \<Rightarrow> error + bytes"

record Transformer =
  Encryptor :: "Encryptor option"
  Compressor :: "Compressor option"
  flags :: "64 word"
  secret :: bytes

definition EnabledEncryption :: "64 word" where
  "EnabledEncryption = push_bit 0 1"

definition EnabledCompression :: "64 word" where
  "EnabledCompression = push_bit 1 1"

definition NewTransformer :: Transformer where
  "NewTransformer = \<lparr>Encryptor = None, Compressor = None, flags = 0, secret = []\<rparr>"

definition EnableEncryption :: "Transformer \<Rightarrow> Transformer" where
  "EnableEncryption t = t\<lparr>flags := flags t OR EnabledEncryption\<rparr>"

definition EnableCompression :: "Transformer \<Rightarrow> Transformer" where
  "EnableCompression t = t\<lparr>flags := flags t OR EnabledCompression\<rparr>"

definition DisableEncryption :: "Transformer \<Rightarrow> Transformer" where
  "DisableEncryption t = t\<lparr>flags := flags t AND NOT EnabledEncryption\<rparr>"

definition DisableCompression :: "Transformer \<Rightarrow> Transformer" where
  "DisableCompression t = t\<lparr>flags := flags t AND NOT EnabledCompression\<rparr>"

definition IsEncryptionEnabled :: "Transformer \<Rightarrow> bool" where
  "IsEncryptionEnabled t = (flags t AND EnabledEncryption \<noteq> 0)"

definition IsCompressionEnabled :: "Transformer \<Rightarrow> bool" where
  "IsCompressionEnabled t = (flags t AND EnabledCompression \<noteq> 0)"

definition DisableAll :: "Transformer \<Rightarrow> Transformer" where
  "DisableAll t = t\<lparr>flags := 0\<rparr>"

text \<open>
  \<^verbatim>\<open>SetEncryptor\<close> mutates the receiver and returns an error or \<^verbatim>\<open>nil\<close>: the model
  returns the error (if any) together with the Transformer after the call.
\<close>

definition SetEncryptor :: "Transformer \<Rightarrow> Encryptor \<Rightarrow> bytes \<Rightarrow> error option \<times> Transformer" where
  "SetEncryptor t encryptor secret' =
     (if length secret' < 16 then (Some (New ''secret char length too short''), t)
      else (None, EnableEncryption (t\<lparr>secret := secret', Encryptor := Some encryptor\<rparr>)))"

definition SetCompressor :: "Transformer \<Rightarrow> Compressor \<Rightarrow> Transformer" where
  "SetCompressor t compressor = EnableCompression (t\<lparr>Compressor := Some compressor\<rparr>)"

subsection \<open>The byte sink and source\<close>

text \<open>
  \<^verbatim>\<open>io.ReadWriteCloser\<close> is an interface of the Go library: the device is a state of
  any type \<open>'fd\<close> with its two methods used here (\<^verbatim>\<open>Close\<close> is never called).
  \<^verbatim>\<open>Write(p)\<close> returns the count and the error it reports, and the device after the call.
  \<^verbatim>\<open>Read(p)\<close>, given \<open>len(p)\<close>, returns the bytes it delivers and the error it reports;
  the delivered bytes are copied over the front of the caller's buffer (\<open>fill\<close>), whose
  remaining bytes keep the zeros of \<^verbatim>\<open>make\<close>. That is how the devices defined below
  behave. An \<^verbatim>\<open>io.Reader\<close> may also use the rest of the buffer as scratch space on a
  short read, which this interface does not express: the theorems about an arbitrary
  device speak of reads that fill the buffer, where nothing of the buffer is left over.
\<close>

record 'fd ReadWriteCloser =
  rwc_Write :: "'fd \<Rightarrow> bytes \<Rightarrow> (int \<times> error option) \<times> 'fd"
  rwc_Read :: "'fd \<Rightarrow> nat \<Rightarrow> (bytes \<times> error option) \<times> 'fd"

definition make_bytes :: "nat \<Rightarrow> bytes" where
  "make_bytes n = replicate n 0"

definition fill :: "bytes \<Rightarrow> bytes \<Rightarrow> bytes" where
  "fill buf got = take (length buf) got @ drop (length got) buf"

text \<open>
  \<^verbatim>\<open>os.File.ReadAt(b, off)\<close> does not move the file position: it is a function of the
  file, the length of \<open>b\<close> and the offset, returning the delivered bytes and the error.
\<close>

type_synonym 'f file_ReadAt = "'f \<Rightarrow> nat \<Rightarrow> int \<Rightarrow> bytes \<times> error option"

subsection \<open>Write, Read and ReadAt\<close>

text \<open>
  \<^verbatim>\<open>Write\<close> returns \<open>(0, err)\<close> on every failure and \<open>(n, nil)\<close> otherwise: \<open>Inl err\<close> and
  \<open>Inr n\<close>. The second component is the sink after the call.

  \<^verbatim>\<open>Read\<close> and \<^verbatim>\<open>ReadAt\<close> allocate the buffer first: \<^verbatim>\<open>make\<close> panics on a negative
  \<open>bufsize\<close>. It also panics on a length beyond what the platform can allocate; a list
  has any length, so the model has no such limit, and the theorems below read at small
  concrete sizes or into a buffer that the source fills, whose length therefore exists.
\<close>

definition Write :: "Transformer \<Rightarrow> 'fd ReadWriteCloser \<Rightarrow> 'fd \<Rightarrow> bytes \<Rightarrow> (error + int) \<times> 'fd" where
  "Write t io fd data =
     (case (if IsCompressionEnabled t \<and> Compressor t \<noteq> None
            then (case Compress (the (Compressor t)) data of
                    Inl err \<Rightarrow> Inl (Errorf ''failed to compress data'' err)
                  | Inr d \<Rightarrow> Inr d)
            else Inr data) of
        Inl e \<Rightarrow> (Inl e, fd)
      | Inr data1 \<Rightarrow>
         (case (if IsEncryptionEnabled t \<and> Encryptor t \<noteq> None
                then (case Encode (the (Encryptor t)) (secret t) data1 of
                        Inl err \<Rightarrow> Inl (Errorf ''failed to encrypt data'' err)
                      | Inr d \<Rightarrow> Inr d)
                else Inr data1) of
            Inl e \<Rightarrow> (Inl e, fd)
          | Inr data2 \<Rightarrow>
             (case rwc_Write io fd data2 of
                ((n, Some err), fd') \<Rightarrow> (Inl (Errorf ''failed to write data'' err), fd')
              | ((n, None), fd') \<Rightarrow> (Inr n, fd'))))"

definition Read :: "Transformer \<Rightarrow> 'fd ReadWriteCloser \<Rightarrow> 'fd \<Rightarrow> int \<Rightarrow> (error + bytes) \<times> 'fd" where
  "Read t io fd bufsize =
     (if bufsize < 0 then (Inl (Panic ''makeslice: len out of range''), fd)
      else
        (case rwc_Read io fd (nat bufsize) of
           ((got, Some err), fd') \<Rightarrow> (Inl (Errorf ''failed to read io device'' err), fd')
         | ((got, None), fd') \<Rightarrow>
            (let buf = fill (make_bytes (nat bufsize)) got in
             (case (if IsEncryptionEnabled t \<and> Encryptor t \<noteq> None
                    then (case Decode (the (Encryptor t)) (secret t) buf of
                            Inl err \<Rightarrow> Inl (Errorf ''failed to decrypt data'' err)
                          | Inr d \<Rightarrow> Inr d)
                    else Inr buf) of
                Inl e \<Rightarrow> (Inl e, fd')
              | Inr buf1 \<Rightarrow>
                 (if IsCompressionEnabled t \<and> Compressor t \<noteq> None
                  then (case Decompress (the (Compressor t)) buf1 of
                          Inl err \<Rightarrow> (Inl (Errorf ''failed to decompress data'' err), fd')
                        | Inr d \<Rightarrow> (Inr d, fd'))
                  else (Inr buf1, fd'))))))"

definition ReadAt :: "Transformer \<Rightarrow> 'f file_ReadAt \<Rightarrow> 'f \<Rightarrow> int \<Rightarrow> int \<Rightarrow> error + bytes" where
  "ReadAt t file_ReadAt fd offset bufsize =
     (if bufsize < 0 then Inl (Panic ''makeslice: len out of range'')
      else
        (case file_ReadAt fd (nat bufsize) offset of
           (got, Some err) \<Rightarrow> Inl (Errorf ''failed to read file'' err)
         | (got, None) \<Rightarrow>
            (let buf = fill (make_bytes (nat bufsize)) got in
             (case (if IsCompressionEnabled t \<and> Compressor t \<noteq> None
                    then (case Decompress (the (Compressor t)) buf of
                            Inl err \<Rightarrow> Inl (Errorf ''failed to decompress data'' err)
                          | Inr d \<Rightarrow> Inr d)
                    else Inr buf) of
                Inl e \<Rightarrow> Inl e
              | Inr buf1 \<Rightarrow>
                 (if IsEncryptionEnabled t \<and> Encryptor t \<noteq> None
                  then (case Decode (the (Encryptor t)) (secret t) buf1 of
                          Inl err \<Rightarrow> Inl (Errorf ''failed to decrypt data'' err)
                        | Inr d \<Rightarrow> Inr d)
                  else Inr buf1)))))"

subsection \<open>The transform pipeline as the specification words it\<close>

text \<open>
  The specification speaks of a forward transform (compress if active, then encrypt if
  active) and of a reverse transform (decrypt if active, then decompress if active),
  where a stage is active when its flag is set and its capability is bound. These
  definitions follow those words; \<open>Write\<close>, \<open>Read\<close> and \<open>ReadAt\<close> above follow the code
  and are compared with them below.
\<close>

definition compression_active :: "Transformer \<Rightarrow> bool" where
  "compression_active t = (IsCompressionEnabled t \<and> Compressor t \<noteq> None)"

definition encryption_active :: "Transformer \<Rightarrow> bool" where
  "encryption_active t = (IsEncryptionEnabled t \<and> Encryptor t \<noteq> None)"

definition forward_transform :: "Transformer \<Rightarrow> bytes \<Rightarrow> error + bytes" where
  "forward_transform t payload =
     (case (if compression_active t then Compress (the (Compressor t)) payload else Inr payload) of
        Inl err \<Rightarrow> Inl (Errorf ''failed to compress data'' err)
      | Inr z \<Rightarrow>
         (case (if encryption_active t then Encode (the (Encryptor t)) (secret t) z else Inr z) of
            Inl err \<Rightarrow> Inl (Errorf ''failed to encrypt data'' err)
          | Inr y \<Rightarrow> Inr y))"

definition reverse_transform :: "Transformer \<Rightarrow> bytes \<Rightarrow> error + bytes" where
  "reverse_transform t stored =
     (case (if encryption_active t then Decode (the (Encryptor t)) (secret t) stored else Inr stored) of
        Inl err \<Rightarrow> Inl (Errorf ''failed to decrypt data'' err)
      | Inr z \<Rightarrow>
         (case (if compression_active t then Decompress (the (Compressor t)) z else Inr z) of
            Inl err \<Rightarrow> Inl (Errorf ''failed to decompress data'' err)
          | Inr y \<Rightarrow> Inr y))"

text \<open>
  The stages of \<open>ReadAt\<close> in the order \<open>ReadAt\<close> runs them (decompress if active, then
  decrypt if active), named so that it can be set beside \<open>reverse_transform\<close>.
\<close>

definition ReadAt_transform :: "Transformer \<Rightarrow> bytes \<Rightarrow> error + bytes" where
  "ReadAt_transform t stored =
     (case (if compression_active t then Decompress (the (Compressor t)) stored else Inr stored) of
        Inl err \<Rightarrow> Inl (Errorf ''failed to decompress data'' err)
      | Inr z \<Rightarrow>
         (case (if encryption_active t then Decode (the (Encryptor t)) (secret t) z else Inr z) of
            Inl err \<Rightarrow> Inl (Errorf ''failed to decrypt data'' err)
          | Inr y \<Rightarrow> Inr y))"

text \<open>Capabilities that return their input: what an inactive stage is compared with.\<close>

definition passthrough_Compressor :: Compressor where
  "passthrough_Compressor = \<lparr>Compress = Inr, Decompress = Inr\<rparr>"

definition passthrough_Encryptor :: Encryptor where
  "passthrough_Encryptor = \<lparr>Encode = (\<lambda>k. Inr), Decode = (\<lambda>k. Inr)\<rparr>"

subsection \<open>Concrete devices and capabilities\<close>

text \<open>
  An in-memory duplex device in the manner of \<^verbatim>\<open>bytes.Buffer\<close>: \<^verbatim>\<open>Write\<close> appends and
  reports the full count, \<^verbatim>\<open>Read\<close> delivers and consumes up to \<open>n\<close> unread bytes, and
  reports EOF when asked for bytes while none are left.
\<close>

definition mem_rwc :: "bytes ReadWriteCloser" where
  "mem_rwc =
     \<lparr>rwc_Write = (\<lambda>fd p. ((int (length p), None), fd @ p)),
      rwc_Read = (\<lambda>fd n. if n = 0 then (([], None), fd)
                          else if fd = [] then (([], Some (New ''EOF'')), fd)
                          else ((take n fd, None), drop n fd))\<rparr>"

text \<open>
  A sink with room for two bytes (a full disk, a bounded pipe): a longer \<^verbatim>\<open>Write\<close>
  stores what fits and reports the short count with an error, as \<^verbatim>\<open>io.Writer\<close> asks.
\<close>

definition small_rwc :: "bytes ReadWriteCloser" where
  "small_rwc =
     \<lparr>rwc_Write = (\<lambda>fd p. if length fd + length p \<le> 2 then ((int (length p), None), fd @ p)
                           else ((int (2 - length fd), Some (New ''short write'')),
                                 fd @ take (2 - length fd) p)),
      rwc_Read = (\<lambda>fd n. if n = 0 then (([], None), fd)
                          else if fd = [] then (([], Some (New ''EOF'')), fd)
                          else ((take n fd, None), drop n fd))\<rparr>"

text \<open>
  A regular file as its contents, read as \<^verbatim>\<open>os.File.ReadAt\<close> documents: a negative
  offset is a \<^verbatim>\<open>*fs.PathError\<close> of the operation \<^verbatim>\<open>readat\<close>, and fewer than \<open>n\<close> bytes
  are delivered only together with the bare \<^verbatim>\<open>io.EOF\<close>.
\<close>

definition osfile_ReadAt :: "bytes file_ReadAt" where
  "osfile_ReadAt f n off =
     (if off < 0 then ([], Some (PathError ''readat'' (New ''negative offset'')))
      else (let got = take n (drop (nat off) f)
            in (got, if length got < n then Some (New ''EOF'') else None)))"

text \<open>
  A framing compressor (it prefixes a magic byte and checks it when decompressing) and
  a shift cipher keyed by the first byte of the secret: a small pair of capabilities
  whose stages do not commute.
\<close>

definition frame_Compressor :: Compressor where
  "frame_Compressor =
     \<lparr>Compress = (\<lambda>d. Inr (67 # d)),
      Decompress = (\<lambda>d. case d of [] \<Rightarrow> Inl (New ''empty frame'')
                         | x # xs \<Rightarrow> if x = 67 then Inr xs else Inl (New ''bad magic''))\<rparr>"

definition key_byte :: "bytes \<Rightarrow> byte" where
  "key_byte k = (case k of [] \<Rightarrow> 0 | x # _ \<Rightarrow> x)"

definition shift_Encryptor :: Encryptor where
  "shift_Encryptor =
     \<lparr>Encode = (\<lambda>k d. Inr (map (\<lambda>b. b + key_byte k) d)),
      Decode = (\<lambda>k d. Inr (map (\<lambda>b. b - key_byte k) d))\<rparr>"

definition secret16 :: bytes where
  "secret16 = [1, 2, 3, 4, 5, 6, 7, 8, 9, 10, 11, 12, 13, 14, 15, 16]"

text \<open>Capabilities that always fail, and a Transformer with both example stages bound.\<close>

definition failing_Compressor :: Compressor where
  "failing_Compressor =
     \<lparr>Compress = (\<lambda>d. Inl (New ''cannot compress'')),
      Decompress = (\<lambda>d. Inl (New ''cannot decompress''))\<rparr>"

definition failing_Encryptor :: Encryptor where
  "failing_Encryptor =
     \<lparr>Encode = (\<lambda>k d. Inl (New ''cannot encode'')),
      Decode = (\<lambda>k d. Inl (New ''cannot decode''))\<rparr>"

definition example_transformer :: Transformer where
  "example_transformer =
     snd (SetEncryptor (SetCompressor NewTransformer frame_Compressor) shift_Encryptor secret16)"

text \<open>
  Two Transformers with both flags set: one with no capability bound, one with only the
  Encryptor bound.
\<close>

definition unbound_transformer :: Transformer where
  "unbound_transformer = EnableEncryption (EnableCompression NewTransformer)"

definition encryptor_bound_transformer :: Transformer where
  "encryptor_bound_transformer =
     EnableCompression (snd (SetEncryptor NewTransformer shift_Encryptor secret16))"

section \<open>The Segment\<close>

text \<open>
  \<^verbatim>\<open>Kind\<close> is an \<^verbatim>\<open>int8\<close> enumeration starting at \<^verbatim>\<open>Set = iota\<close>: the zero value of the
  type is \<open>Set\<close>. The integer fields of a Segment keep their widths.
\<close>

datatype Kind = Set | ZSet | List | Text | Tables | Binary | Number | Unknown

record Segment =
  Tombstone :: "8 word"
  Type :: Kind
  ExpiredAt :: "64 word"
  CreatedAt :: "64 word"
  KeySize :: "32 word"
  ValueSize :: "32 word"
  Key :: bytes
  Value :: bytes

text \<open>
  A \<^verbatim>\<open>Serializable\<close> is an interface value: its dynamic type, which \<^verbatim>\<open>toKind\<close> switches
  on (the seven pointer types of the \<^verbatim>\<open>types\<close> package, or anything else), and the
  bytes its \<^verbatim>\<open>ToBSON\<close> method returns.
\<close>

datatype dynamic_type =
  PtrSet | PtrZSet | PtrList | PtrText | PtrTables | PtrBinary | PtrNumber | OtherType

record Serializable =
  dynamic :: dynamic_type
  ToBSON :: bytes

definition toKind :: "Serializable \<Rightarrow> Kind \<times> error option" where
  "toKind data =
     (case dynamic data of
        PtrSet \<Rightarrow> (Set, None)
      | PtrZSet \<Rightarrow> (ZSet, None)
      | PtrList \<Rightarrow> (List, None)
      | PtrText \<Rightarrow> (Text, None)
      | PtrTables \<Rightarrow> (Tables, None)
      | PtrBinary \<Rightarrow> (Binary, None)
      | PtrNumber \<Rightarrow> (Number, None)
      | OtherType \<Rightarrow> (Unknown, Some (New ''unknown data type'')))"

text \<open>
  \<^verbatim>\<open>NewSegment\<close> calls \<^verbatim>\<open>transformer.Encode\<close>, a package-level value that the given
  sources do not declare: its \<^verbatim>\<open>Encode\<close> is the parameter \<open>transformer_Encode\<close>. The two
  calls of \<^verbatim>\<open>time.Now()\<close> are the parameters \<open>now1\<close> and \<open>now2\<close>, in nanoseconds since
  the Unix epoch; \<^verbatim>\<open>Unix()\<close> is the floor of the seconds. \<^verbatim>\<open>time.Duration(ttl)\<close> reads
  the 64 bits of \<open>ttl\<close> as signed and the product with \<^verbatim>\<open>time.Second\<close> wraps.
\<close>

definition NewSegment ::
  "(bytes \<Rightarrow> error + bytes) \<Rightarrow> int \<Rightarrow> int \<Rightarrow> bytes \<Rightarrow> Serializable \<Rightarrow> 64 word \<Rightarrow> error + Segment" where
  "NewSegment transformer_Encode now1 now2 key data ttl =
     (case toKind data of
        (kind, Some err) \<Rightarrow> Inl (Errorf ''unsupported data type'' err)
      | (kind, None) \<Rightarrow>
         (let timestamp = (word_of_int (now1 div 1000000000) :: 64 word);
              expiredAt = (if ttl > 0
                           then word_of_int ((now2 + sint (1000000000 * ttl)) div 1000000000)
                           else 0)
          in (case transformer_Encode (ToBSON data) of
                Inl err \<Rightarrow> Inl (Errorf ''transformer encode'' err)
              | Inr encodedata \<Rightarrow>
                 Inr \<lparr>Tombstone = 0, Type = kind, ExpiredAt = expiredAt, CreatedAt = timestamp,
                      KeySize = word_of_nat (length key),
                      ValueSize = word_of_nat (length encodedata),
                      Key = key, Value = encodedata\<rparr>)))"

definition NewTombstoneSegment :: "bytes \<Rightarrow> Segment" where
  "NewTombstoneSegment key =
     \<lparr>Tombstone = 1, Type = Set, ExpiredAt = 0, CreatedAt = 0,
      KeySize = word_of_nat (length key), ValueSize = 0, Key = key, Value = []\<rparr>"

definition IsTombstone :: "Segment \<Rightarrow> bool" where
  "IsTombstone s = (Tombstone s = 1)"

definition Size :: "Segment \<Rightarrow> 32 word" where
  "Size s = 26 + KeySize s + ValueSize s + 4"

text \<open>
  The projections return a pointer or \<^verbatim>\<open>nil\<close>. The value types of the \<^verbatim>\<open>types\<close> package
  are type parameters; \<^verbatim>\<open>ToSet\<close> returns the address of a fresh zero value, here the
  parameter \<open>zero_Set\<close>.
\<close>

definition ToSet :: "'set \<Rightarrow> Segment \<Rightarrow> 'set option" where
  "ToSet zero_Set s = (if Type s \<noteq> Set then None else Some zero_Set)"

definition ToZSet :: "Segment \<Rightarrow> 'zset option" where
  "ToZSet s = None"

definition ToText :: "Segment \<Rightarrow> 'text option" where
  "ToText s = None"

definition ToList :: "Segment \<Rightarrow> 'list option" where
  "ToList s = None"

definition ToTables :: "Segment \<Rightarrow> 'tables option" where
  "ToTables s = None"

definition ToBinary :: "Segment \<Rightarrow> 'binary option" where
  "ToBinary s = None"

definition ToNumber :: "Segment \<Rightarrow> 'number option" where
  "ToNumber s = None"

text \<open>
  \<^verbatim>\<open>TTL\<close> reads the clock once: \<open>now\<close> is \<^verbatim>\<open>uint64(time.Now().Unix())\<close>. The difference is
  computed on 64-bit unsigned words and converted to \<^verbatim>\<open>int64\<close>, which reads the same
  bits as two's complement.
\<close>

definition TTL :: "Segment \<Rightarrow> 64 word \<Rightarrow> int" where
  "TTL s now = (if ExpiredAt s > 0 \<and> ExpiredAt s > now then sint (ExpiredAt s - now) else - 1)"

text \<open>The key \<^verbatim>\<open>"user:1"\<close> and a \<^verbatim>\<open>*types.Number\<close> holding 42, with a five-byte encoding.\<close>

definition user1 :: bytes where
  "user1 = [117, 115, 101, 114, 58, 49]"

definition number42 :: Serializable where
  "number42 = \<lparr>dynamic = PtrNumber, ToBSON = [16, 0, 0, 0, 42]\<rparr>"


section \<open>Flags, gates and the pipeline\<close>

lemma flag_simps:
  "IsCompressionEnabled (EnableCompression t)"
  "IsEncryptionEnabled (EnableEncryption t)"
  "IsEncryptionEnabled (EnableCompression t) = IsEncryptionEnabled t"
  "IsCompressionEnabled (EnableEncryption t) = IsCompressionEnabled t"
  by (simp_all add: IsCompressionEnabled_def IsEncryptionEnabled_def EnableCompression_def
        EnableEncryption_def EnabledCompression_def EnabledEncryption_def bit.conj_disj_distrib2)

lemma flag_field_simps:
  "IsCompressionEnabled (t\<lparr>Compressor := c\<rparr>) = IsCompressionEnabled t"
  "IsCompressionEnabled (t\<lparr>Encryptor := e\<rparr>) = IsCompressionEnabled t"
  "IsCompressionEnabled (t\<lparr>secret := k\<rparr>) = IsCompressionEnabled t"
  "IsEncryptionEnabled (t\<lparr>Compressor := c\<rparr>) = IsEncryptionEnabled t"
  "IsEncryptionEnabled (t\<lparr>Encryptor := e\<rparr>) = IsEncryptionEnabled t"
  "IsEncryptionEnabled (t\<lparr>secret := k\<rparr>) = IsEncryptionEnabled t"
  by (simp_all add: IsCompressionEnabled_def IsEncryptionEnabled_def)

lemma Enable_fields:
  "Compressor (EnableCompression t) = Compressor t"
  "Encryptor (EnableCompression t) = Encryptor t"
  "secret (EnableCompression t) = secret t"
  "Compressor (EnableEncryption t) = Compressor t"
  "Encryptor (EnableEncryption t) = Encryptor t"
  "secret (EnableEncryption t) = secret t"
  by (simp_all add: EnableCompression_def EnableEncryption_def)

lemma active_simps:
  "compression_active (SetCompressor t c)"
  "encryption_active (SetCompressor t c) = encryption_active t"
  "\<not> compression_active (t\<lparr>Compressor := None\<rparr>)"
  "encryption_active (t\<lparr>Compressor := x\<rparr>) = encryption_active t"
  "encryption_active (EnableEncryption (t\<lparr>Encryptor := Some e\<rparr>))"
  "compression_active (EnableEncryption (t\<lparr>Encryptor := y\<rparr>)) = compression_active t"
  "\<not> encryption_active (t\<lparr>Encryptor := None\<rparr>)"
  "compression_active (t\<lparr>Encryptor := y\<rparr>) = compression_active t"
  by (simp_all add: compression_active_def encryption_active_def SetCompressor_def
        flag_simps flag_field_simps Enable_fields)

lemma SetCompressor_fields:
  "Compressor (SetCompressor t c) = Some c"
  "Encryptor (SetCompressor t c) = Encryptor t"
  "secret (SetCompressor t c) = secret t"
  by (simp_all add: SetCompressor_def Enable_fields)

lemma example_transformer_simps:
  "compression_active example_transformer"
  "encryption_active example_transformer"
  "Compressor example_transformer = Some frame_Compressor"
  "Encryptor example_transformer = Some shift_Encryptor"
  "secret example_transformer = secret16"
  by (simp_all add: example_transformer_def SetEncryptor_def SetCompressor_def secret16_def
        compression_active_def encryption_active_def flag_simps flag_field_simps Enable_fields)

lemma NewTransformer_simps:
  "\<not> compression_active NewTransformer"
  "\<not> encryption_active NewTransformer"
  by (simp_all add: NewTransformer_def compression_active_def encryption_active_def)

section \<open>The code against the pipeline\<close>

lemma Write_forward:
  "Write t io fd data =
     (case forward_transform t data of
        Inl e \<Rightarrow> (Inl e, fd)
      | Inr z \<Rightarrow>
         (case rwc_Write io fd z of
            ((n, Some err), fd') \<Rightarrow> (Inl (Errorf ''failed to write data'' err), fd')
          | ((n, None), fd') \<Rightarrow> (Inr n, fd')))"
proof -
  define A where "A = (IsCompressionEnabled t \<and> Compressor t \<noteq> None)"
  define B where "B = (IsEncryptionEnabled t \<and> Encryptor t \<noteq> None)"
  show ?thesis
    unfolding Write_def forward_transform_def compression_active_def encryption_active_def
      A_def [symmetric] B_def [symmetric]
    by (cases A; cases B; simp split: sum.split)
qed

lemma Read_reverse:
  "Read t io fd bufsize =
     (if bufsize < 0 then (Inl (Panic ''makeslice: len out of range''), fd)
      else (case rwc_Read io fd (nat bufsize) of
              ((got, Some err), fd') \<Rightarrow> (Inl (Errorf ''failed to read io device'' err), fd')
            | ((got, None), fd') \<Rightarrow>
                (reverse_transform t (fill (make_bytes (nat bufsize)) got), fd')))"
proof -
  define A where "A = (IsCompressionEnabled t \<and> Compressor t \<noteq> None)"
  define B where "B = (IsEncryptionEnabled t \<and> Encryptor t \<noteq> None)"
  show ?thesis
    unfolding Read_def reverse_transform_def compression_active_def encryption_active_def
      A_def [symmetric] B_def [symmetric] Let_def
    by (cases A; cases B; simp split: sum.split prod.split option.split)
qed

lemma ReadAt_stages:
  "ReadAt t ra f off bufsize =
     (if bufsize < 0 then Inl (Panic ''makeslice: len out of range'')
      else (case ra f (nat bufsize) off of
              (got, Some err) \<Rightarrow> Inl (Errorf ''failed to read file'' err)
            | (got, None) \<Rightarrow> ReadAt_transform t (fill (make_bytes (nat bufsize)) got)))"
proof -
  define A where "A = (IsCompressionEnabled t \<and> Compressor t \<noteq> None)"
  define B where "B = (IsEncryptionEnabled t \<and> Encryptor t \<noteq> None)"
  show ?thesis
    unfolding ReadAt_def ReadAt_transform_def compression_active_def encryption_active_def
      A_def [symmetric] B_def [symmetric] Let_def
    by (cases A; cases B; simp split: sum.split prod.split option.split)
qed

lemma fill_exact: "length got = n \<Longrightarrow> fill (make_bytes n) got = got"
  by (simp add: fill_def make_bytes_def)

lemma make_bytes_4: "make_bytes 4 = [0, 0, 0, 0]"
  by (simp add: make_bytes_def eval_nat_numeral)

section \<open>Stages of the pure pipelines\<close>

lemma forward_compression_inactive:
  "\<not> compression_active t \<Longrightarrow>
     forward_transform t d = forward_transform (SetCompressor t passthrough_Compressor) d"
  by (simp add: forward_transform_def active_simps SetCompressor_fields passthrough_Compressor_def)

lemma forward_encryption_inactive:
  "\<not> encryption_active t \<Longrightarrow>
     forward_transform t d =
     forward_transform (EnableEncryption (t\<lparr>Encryptor := Some passthrough_Encryptor\<rparr>)) d"
  by (simp add: forward_transform_def active_simps Enable_fields passthrough_Encryptor_def
        split: sum.split)

lemma reverse_compression_inactive:
  "\<not> compression_active t \<Longrightarrow>
     reverse_transform t d = reverse_transform (SetCompressor t passthrough_Compressor) d"
  by (simp add: reverse_transform_def active_simps SetCompressor_fields passthrough_Compressor_def
        split: sum.split)

lemma reverse_encryption_inactive:
  "\<not> encryption_active t \<Longrightarrow>
     reverse_transform t d =
     reverse_transform (EnableEncryption (t\<lparr>Encryptor := Some passthrough_Encryptor\<rparr>)) d"
  by (simp add: reverse_transform_def active_simps Enable_fields passthrough_Encryptor_def)

lemma ReadAt_transform_compression_inactive:
  "\<not> compression_active t \<Longrightarrow>
     ReadAt_transform t d = ReadAt_transform (SetCompressor t passthrough_Compressor) d"
  by (simp add: ReadAt_transform_def active_simps SetCompressor_fields passthrough_Compressor_def)

lemma ReadAt_transform_encryption_inactive:
  "\<not> encryption_active t \<Longrightarrow>
     ReadAt_transform t d =
     ReadAt_transform (EnableEncryption (t\<lparr>Encryptor := Some passthrough_Encryptor\<rparr>)) d"
  by (simp add: ReadAt_transform_def active_simps Enable_fields passthrough_Encryptor_def
        split: sum.split)

lemma forward_compression_applied:
  "compression_active t \<Longrightarrow> Compressor t = Some c \<Longrightarrow>
     forward_transform t d =
       (case Compress c d of
          Inl err \<Rightarrow> Inl (Errorf ''failed to compress data'' err)
        | Inr z \<Rightarrow> forward_transform (t\<lparr>Compressor := None\<rparr>) z)"
  by (simp add: forward_transform_def active_simps split: sum.split)

lemma forward_encryption_applied:
  "encryption_active t \<Longrightarrow> Encryptor t = Some e \<Longrightarrow> \<not> compression_active t \<Longrightarrow>
     forward_transform t d =
       (case Encode e (secret t) d of
          Inl err \<Rightarrow> Inl (Errorf ''failed to encrypt data'' err)
        | Inr z \<Rightarrow> forward_transform (t\<lparr>Encryptor := None\<rparr>) z)"
  by (simp add: forward_transform_def active_simps split: sum.split)

lemma reverse_compression_applied:
  "compression_active t \<Longrightarrow> Compressor t = Some c \<Longrightarrow>
     reverse_transform t d =
       (case reverse_transform (t\<lparr>Compressor := None\<rparr>) d of
          Inl err \<Rightarrow> Inl err
        | Inr b \<Rightarrow>
           (case Decompress c b of
              Inl err \<Rightarrow> Inl (Errorf ''failed to decompress data'' err)
            | Inr y \<Rightarrow> Inr y))"
  by (simp add: reverse_transform_def active_simps split: sum.split)

lemma reverse_encryption_applied:
  "encryption_active t \<Longrightarrow> Encryptor t = Some e \<Longrightarrow> \<not> compression_active t \<Longrightarrow>
     reverse_transform t d =
       (case reverse_transform (t\<lparr>Encryptor := None\<rparr>) d of
          Inl err \<Rightarrow> Inl err
        | Inr b \<Rightarrow>
           (case Decode e (secret t) b of
              Inl err \<Rightarrow> Inl (Errorf ''failed to decrypt data'' err)
            | Inr y \<Rightarrow> Inr y))"
  by (simp add: reverse_transform_def active_simps split: sum.split)

lemma ReadAt_transform_encryption_applied:
  "encryption_active t \<Longrightarrow> Encryptor t = Some e \<Longrightarrow>
     ReadAt_transform t d =
       (case ReadAt_transform (t\<lparr>Encryptor := None\<rparr>) d of
          Inl err \<Rightarrow> Inl err
        | Inr b \<Rightarrow>
           (case Decode e (secret t) b of
              Inl err \<Rightarrow> Inl (Errorf ''failed to decrypt data'' err)
            | Inr y \<Rightarrow> Inr y))"
  by (simp add: ReadAt_transform_def active_simps split: sum.split)

lemma ReadAt_transform_compression_applied:
  "compression_active t \<Longrightarrow> Compressor t = Some c \<Longrightarrow> \<not> encryption_active t \<Longrightarrow>
     ReadAt_transform t d =
       (case ReadAt_transform (t\<lparr>Compressor := None\<rparr>) d of
          Inl err \<Rightarrow> Inl err
        | Inr b \<Rightarrow>
           (case Decompress c b of
              Inl err \<Rightarrow> Inl (Errorf ''failed to decompress data'' err)
            | Inr y \<Rightarrow> Inr y))"
  by (simp add: ReadAt_transform_def active_simps split: sum.split)

section \<open>Lifting to the I/O operations\<close>

lemma Write_cong_forward:
  "forward_transform t d = forward_transform t' d \<Longrightarrow> Write t io fd d = Write t' io fd d"
  by (simp add: Write_forward)

lemma Read_cong_reverse:
  "(\<And>b. reverse_transform t b = reverse_transform t' b) \<Longrightarrow> Read t io fd n = Read t' io fd n"
  by (simp add: Read_reverse)

lemma ReadAt_cong_transform:
  "(\<And>b. ReadAt_transform t b = ReadAt_transform t' b) \<Longrightarrow> ReadAt t ra f off n = ReadAt t' ra f off n"
  by (simp add: ReadAt_stages)

lemma Write_stage_applied:
  assumes "\<And>d. forward_transform t d =
             (case g d of Inl err \<Rightarrow> Inl (Errorf m err) | Inr z \<Rightarrow> forward_transform t' z)"
  shows "Write t io fd data =
           (case g data of Inl err \<Rightarrow> (Inl (Errorf m err), fd) | Inr z \<Rightarrow> Write t' io fd z)"
  by (simp add: Write_forward assms split: sum.split)

lemma Read_stage_applied:
  assumes "\<And>d. reverse_transform t d =
             (case reverse_transform t' d of
                Inl err \<Rightarrow> Inl err
              | Inr b \<Rightarrow> (case g b of Inl err \<Rightarrow> Inl (Errorf m err) | Inr y \<Rightarrow> Inr y))"
  shows "Read t io fd n =
           (case Read t' io fd n of
              (Inl err, fd') \<Rightarrow> (Inl err, fd')
            | (Inr b, fd') \<Rightarrow>
                (case g b of Inl err \<Rightarrow> (Inl (Errorf m err), fd') | Inr y \<Rightarrow> (Inr y, fd')))"
  by (auto simp add: Read_reverse assms split: sum.split prod.split option.split)

lemma ReadAt_stage_applied:
  assumes "\<And>d. ReadAt_transform t d =
             (case ReadAt_transform t' d of
                Inl err \<Rightarrow> Inl err
              | Inr b \<Rightarrow> (case g b of Inl err \<Rightarrow> Inl (Errorf m err) | Inr y \<Rightarrow> Inr y))"
  shows "ReadAt t ra f off n =
           (case ReadAt t' ra f off n of
              Inl err \<Rightarrow> Inl err
            | Inr b \<Rightarrow> (case g b of Inl err \<Rightarrow> Inl (Errorf m err) | Inr y \<Rightarrow> Inr y))"
  by (auto simp add: ReadAt_stages assms split: sum.split prod.split option.split)

section \<open>Configuration errors\<close>

text \<open>
  C5. For every Transformer and every secret shorter than 16 bytes, \<^verbatim>\<open>SetEncryptor\<close>
  returns the configuration error and the Transformer after the call is the Transformer
  before it: the encryption flag is as it was (disabled if it was disabled), and the
  stored secret and the bound Encryptor are not replaced.
\<close>

theorem SetEncryptor_short_secret:
  assumes "length s < 16"
  shows "SetEncryptor t e s = (Some (New ''secret char length too short''), t)
       \<and> IsEncryptionEnabled (snd (SetEncryptor t e s)) = IsEncryptionEnabled t
       \<and> secret (snd (SetEncryptor t e s)) = secret t
       \<and> Encryptor (snd (SetEncryptor t e s)) = Encryptor t"
proof -
  from assms have "SetEncryptor t e s = (Some (New ''secret char length too short''), t)"
    by (simp add: SetEncryptor_def)
  then show ?thesis by simp
qed

theorem SetEncryptor_short_secret_witness:
  "length [1, 2, 3 :: byte] < 16
   \<and> SetEncryptor NewTransformer passthrough_Encryptor [1, 2, 3]
       = (Some (New ''secret char length too short''), NewTransformer)
   \<and> \<not> IsEncryptionEnabled (snd (SetEncryptor NewTransformer passthrough_Encryptor [1, 2, 3]))
   \<and> IsEncryptionEnabled (snd (SetEncryptor example_transformer failing_Encryptor [1, 2, 3]))
   \<and> Encryptor (snd (SetEncryptor example_transformer failing_Encryptor [1, 2, 3]))
       = Some shift_Encryptor
   \<and> secret (snd (SetEncryptor example_transformer failing_Encryptor [1, 2, 3])) = secret16"
proof -
  have l: "length [1, 2, 3 :: byte] < 16" by simp
  note fresh = SetEncryptor_short_secret [OF l, of NewTransformer passthrough_Encryptor]
  note bound = SetEncryptor_short_secret [OF l, of example_transformer failing_Encryptor]
  have "\<not> IsEncryptionEnabled NewTransformer"
    by (simp add: IsEncryptionEnabled_def NewTransformer_def)
  moreover have "IsEncryptionEnabled example_transformer"
    using example_transformer_simps(2) by (simp add: encryption_active_def)
  ultimately show ?thesis
    using l fresh bound by (simp add: example_transformer_simps)
qed

section \<open>Write and the two reads\<close>

lemma reverse_forward:
  assumes c: "\<forall>c. Compressor t = Some c \<longrightarrow> (\<forall>d. \<exists>z. Compress c d = Inr z \<and> Decompress c z = Inr d)"
      and e: "\<forall>e. Encryptor t = Some e \<longrightarrow>
                (\<forall>d. \<exists>z. Encode e (secret t) d = Inr z \<and> Decode e (secret t) z = Inr d)"
  shows "\<exists>z. forward_transform t payload = Inr z \<and> reverse_transform t z = Inr payload"
proof -
  have "\<exists>z1. (if compression_active t then Compress (the (Compressor t)) payload else Inr payload) = Inr z1
            \<and> (if compression_active t then Decompress (the (Compressor t)) z1 else Inr z1) = Inr payload"
    using c by (cases "Compressor t") (simp_all add: compression_active_def)
  then obtain z1 where z1: "(if compression_active t then Compress (the (Compressor t)) payload else Inr payload) = Inr z1"
    and z1': "(if compression_active t then Decompress (the (Compressor t)) z1 else Inr z1) = Inr payload"
    by blast
  have "\<exists>z2. (if encryption_active t then Encode (the (Encryptor t)) (secret t) z1 else Inr z1) = Inr z2
            \<and> (if encryption_active t then Decode (the (Encryptor t)) (secret t) z2 else Inr z2) = Inr z1"
    using e by (cases "Encryptor t") (simp_all add: encryption_active_def)
  then obtain z2 where z2: "(if encryption_active t then Encode (the (Encryptor t)) (secret t) z1 else Inr z1) = Inr z2"
    and z2': "(if encryption_active t then Decode (the (Encryptor t)) (secret t) z2 else Inr z2) = Inr z1"
    by blast
  have "forward_transform t payload = Inr z2"
    unfolding forward_transform_def by (simp only: z1 z2 sum.case)
  moreover have "reverse_transform t z2 = Inr payload"
    unfolding reverse_transform_def by (simp only: z1' z2' sum.case)
  ultimately show ?thesis by blast
qed

lemma mem_rwc_loopback:
  "\<exists>fd1 fd2. rwc_Write mem_rwc [] d = ((int (length d), None), fd1)
      \<and> rwc_Read mem_rwc fd1 (length d) = ((d, None), fd2)"
  by (cases d) (simp_all add: mem_rwc_def)

lemma frame_Compressor_inverse:
  "\<exists>z. Compress frame_Compressor d = Inr z \<and> Decompress frame_Compressor z = Inr d"
  by (simp add: frame_Compressor_def)

lemma shift_Encryptor_inverse:
  "\<exists>z. Encode shift_Encryptor k d = Inr z \<and> Decode shift_Encryptor k z = Inr d"
  by (simp add: shift_Encryptor_def comp_def)

lemma example_Write:
  "Write example_transformer mem_rwc [] [1, 2, 3] = (Inr 4, [68, 2, 3, 4])"
  by (simp add: Write_forward forward_transform_def example_transformer_simps frame_Compressor_def
        shift_Encryptor_def secret16_def key_byte_def mem_rwc_def)

lemma example_Read:
  "Read example_transformer mem_rwc [68, 2, 3, 4] 4 = (Inr [1, 2, 3], [])"
  by (simp add: Read_reverse reverse_transform_def example_transformer_simps frame_Compressor_def
        shift_Encryptor_def secret16_def key_byte_def mem_rwc_def fill_def make_bytes_4)

lemma example_ReadAt:
  "ReadAt example_transformer osfile_ReadAt [68, 2, 3, 4] 0 4 =
     Inl (Errorf ''failed to decompress data'' (New ''bad magic''))"
  by (simp add: ReadAt_stages ReadAt_transform_def example_transformer_simps frame_Compressor_def
        shift_Encryptor_def secret16_def key_byte_def osfile_ReadAt_def fill_def make_bytes_4)

text \<open>
  C1. Round trip. For every payload and every Transformer (any flags, each capability
  bound or not): if the bound Compressor's \<open>Decompress\<close> undoes its \<open>Compress\<close>, the
  bound Encryptor's \<open>Decode\<close> undoes its \<open>Encode\<close> under the stored secret, and the
  device hands back exactly the bytes written to it, then \<open>Write\<close> succeeds and \<open>Read\<close>
  of the returned count yields the payload.
\<close>

theorem Write_Read_round_trip:
  assumes c: "\<forall>c. Compressor t = Some c \<longrightarrow> (\<forall>d. \<exists>z. Compress c d = Inr z \<and> Decompress c z = Inr d)"
      and e: "\<forall>e. Encryptor t = Some e \<longrightarrow>
                (\<forall>d. \<exists>z. Encode e (secret t) d = Inr z \<and> Decode e (secret t) z = Inr d)"
      and loopback: "\<forall>d. \<exists>fd1 fd2. rwc_Write io fd d = ((int (length d), None), fd1)
                       \<and> rwc_Read io fd1 (length d) = ((d, None), fd2)"
  shows "\<exists>n fd'. Write t io fd payload = (Inr n, fd') \<and> fst (Read t io fd' n) = Inr payload"
proof -
  obtain z where fw: "forward_transform t payload = Inr z" and rv: "reverse_transform t z = Inr payload"
    using reverse_forward [OF c e] by blast
  obtain fd1 fd2 where w: "rwc_Write io fd z = ((int (length z), None), fd1)"
    and r: "rwc_Read io fd1 (length z) = ((z, None), fd2)"
    using loopback by blast
  have "Write t io fd payload = (Inr (int (length z)), fd1)"
    by (simp add: Write_forward fw w)
  moreover have "fst (Read t io fd1 (int (length z))) = Inr payload"
    by (simp add: Read_reverse r fill_exact rv)
  ultimately show ?thesis by blast
qed

theorem Write_Read_round_trip_witness:
  "Write example_transformer mem_rwc [] [1, 2, 3] = (Inr 4, [68, 2, 3, 4])
   \<and> fst (Read example_transformer mem_rwc [68, 2, 3, 4] 4) = Inr [1, 2, 3]"
proof -
  have c: "\<forall>c. Compressor example_transformer = Some c \<longrightarrow>
             (\<forall>d. \<exists>z. Compress c d = Inr z \<and> Decompress c z = Inr d)"
    by (simp add: example_transformer_simps frame_Compressor_inverse)
  have e: "\<forall>e. Encryptor example_transformer = Some e \<longrightarrow>
             (\<forall>d. \<exists>z. Encode e (secret example_transformer) d = Inr z
                      \<and> Decode e (secret example_transformer) z = Inr d)"
    by (simp add: example_transformer_simps shift_Encryptor_inverse)
  have l: "\<forall>d. \<exists>fd1 fd2. rwc_Write mem_rwc [] d = ((int (length d), None), fd1)
             \<and> rwc_Read mem_rwc fd1 (length d) = ((d, None), fd2)"
    using mem_rwc_loopback by blast
  from Write_Read_round_trip [OF c e l, of "[1, 2, 3]"]
  obtain n fd' where w: "Write example_transformer mem_rwc [] [1, 2, 3] = (Inr n, fd')"
    and r: "fst (Read example_transformer mem_rwc fd' n) = Inr [1, 2, 3]"
    by blast
  from w have "n = 4" "fd' = [68, 2, 3, 4]"
    by (simp_all add: example_Write)
  with w r show ?thesis by simp
qed

text \<open>
  C10. When \<open>Write\<close> succeeds, the count it returns is the one the sink reported for
  the transformed bytes. For a sink that keeps the \<^verbatim>\<open>io.Writer\<close> contract (no error
  only with the full count) it is the length after the transform, and it differs from
  the length of the caller's payload whenever a stage changed the length.
\<close>

theorem Write_returns_sink_count:
  assumes "Write t io fd data = (Inr n, fd')"
  shows "\<exists>z. forward_transform t data = Inr z
           \<and> rwc_Write io fd z = ((n, None), fd')
           \<and> ((\<forall>p m s. rwc_Write io fd p = ((m, None), s) \<longrightarrow> m = int (length p)) \<longrightarrow>
                n = int (length z) \<and> (length z \<noteq> length data \<longrightarrow> n \<noteq> int (length data)))"
proof (cases "forward_transform t data")
  case (Inl err)
  with assms show ?thesis by (simp add: Write_forward)
next
  case (Inr z)
  obtain m eo s where w: "rwc_Write io fd z = ((m, eo), s)"
    by (cases "rwc_Write io fd z") auto
  from assms Inr w have "eo = None" "m = n" "s = fd'"
    by (cases eo; simp add: Write_forward)+
  with w have w': "rwc_Write io fd z = ((n, None), fd')" by simp
  have "n = int (length z) \<and> (length z \<noteq> length data \<longrightarrow> n \<noteq> int (length data))"
    if "\<forall>p m s. rwc_Write io fd p = ((m, None), s) \<longrightarrow> m = int (length p)"
  proof -
    from that w' have "n = int (length z)" by blast
    then show ?thesis by simp
  qed
  with Inr w' show ?thesis by blast
qed

theorem Write_returns_sink_count_witness:
  "Write example_transformer mem_rwc [] [1, 2, 3] = (Inr 4, [68, 2, 3, 4])
   \<and> (\<exists>z. forward_transform example_transformer [1, 2, 3] = Inr z
          \<and> rwc_Write mem_rwc [] z = ((4, None), [68, 2, 3, 4])
          \<and> 4 = int (length z) \<and> (4::int) \<noteq> int (length [1, 2, 3 :: byte]))"
proof -
  have contract: "\<forall>p m s. rwc_Write mem_rwc [] p = ((m, None), s) \<longrightarrow> m = int (length p)"
    by (simp add: mem_rwc_def)
  obtain z where z: "forward_transform example_transformer [1, 2, 3] = Inr z"
      "rwc_Write mem_rwc [] z = ((4, None), [68, 2, 3, 4])"
      "4 = int (length z)"
    using Write_returns_sink_count [OF example_Write] contract by blast
  with example_Write show ?thesis by simp
qed

text \<open>
  C2. \<open>Read\<close> and \<open>ReadAt\<close> are claimed to apply the same reverse transform, decrypt
  first and then decompress. \<open>ReadAt\<close> decompresses first and decrypts second. With
  both stages active, what \<open>Write\<close> stored is recovered by \<open>Read\<close> and rejected by
  \<open>ReadAt\<close>, whose decompression meets the bytes still encrypted.
\<close>

theorem ReadAt_reverses_stages_in_the_wrong_order:
  "Write example_transformer mem_rwc [] [1, 2, 3] = (Inr 4, [68, 2, 3, 4])
   \<and> Read example_transformer mem_rwc [68, 2, 3, 4] 4 = (Inr [1, 2, 3], [])
   \<and> ReadAt example_transformer osfile_ReadAt [68, 2, 3, 4] 0 4 =
       Inl (Errorf ''failed to decompress data'' (New ''bad magic''))"
  by (simp only: example_Write example_Read example_ReadAt)

text \<open>The two orders agree unless both stages are active.\<close>

lemma Read_ReadAt_agree_unless_both_active:
  assumes "\<not> (compression_active t \<and> encryption_active t)"
  shows "reverse_transform t b = ReadAt_transform t b"
  using assms by (auto simp: reverse_transform_def ReadAt_transform_def split: sum.split)

text \<open>
  C3. A read that returns fewer bytes than the buffer length is claimed to fail with an
  I/O error on both paths. The stream \<open>Read\<close> discards the count that the source
  returns: from a device that holds two bytes and delivers them with no error, a read of
  four bytes returns the whole buffer as data, and with both stages bound it decodes and
  decompresses bytes that were never written. The offset \<open>ReadAt\<close> fails on the same
  short read, since the file reports EOF with it.
\<close>

theorem Read_tolerates_short_read:
  "rwc_Read mem_rwc [1, 2] 4 = (([1, 2], None), [])
   \<and> Read NewTransformer mem_rwc [1, 2] 4 = (Inr [1, 2, 0, 0], [])
   \<and> Read example_transformer mem_rwc [68, 2] 4 = (Inr [1, 255, 255], [])
   \<and> ReadAt NewTransformer osfile_ReadAt [1, 2] 0 4 =
       Inl (Errorf ''failed to read file'' (New ''EOF''))"
proof -
  have d: "rwc_Read mem_rwc [1, 2] 4 = (([1, 2], None), [])"
    by (simp add: mem_rwc_def)
  have "Read NewTransformer mem_rwc [1, 2] 4 = (Inr [1, 2, 0, 0], [])"
    by (simp add: Read_reverse reverse_transform_def NewTransformer_simps mem_rwc_def fill_def
          make_bytes_4)
  moreover have "Read example_transformer mem_rwc [68, 2] 4 = (Inr [1, 255, 255], [])"
    by (simp add: Read_reverse reverse_transform_def example_transformer_simps
          frame_Compressor_def shift_Encryptor_def secret16_def key_byte_def mem_rwc_def
          fill_def make_bytes_4)
  moreover have "ReadAt NewTransformer osfile_ReadAt [1, 2] 0 4 =
       Inl (Errorf ''failed to read file'' (New ''EOF''))"
    by (simp add: ReadAt_stages osfile_ReadAt_def)
  ultimately show ?thesis using d by simp
qed

text \<open>
  C6, as worded, fails at the sink stage: a sink that stores what fits and then reports
  an error makes \<open>Write\<close> abort with the write-stage error while two bytes are in the
  sink.
\<close>

theorem Write_failed_sink_write_leaves_partial_bytes:
  "Write NewTransformer small_rwc [] [1, 2, 3] =
     (Inl (Errorf ''failed to write data'' (New ''short write'')), [1, 2])"
  by (simp add: Write_forward forward_transform_def NewTransformer_simps small_rwc_def)

text \<open>
  C6, amended. Compression (when active) runs before encryption (when active), which
  runs on the compressed bytes. A compression or an encryption failure aborts with the
  error of that stage and the sink is the sink before the call: no write was attempted.
  Otherwise the sink's \<^verbatim>\<open>Write\<close> is called once with the fully transformed bytes; its
  failure is reported as the write-stage error, and the sink is as that call left it.
\<close>

theorem Write_stage_order_and_failures:
  "(compression_active t \<longrightarrow> Compress (the (Compressor t)) data = Inl err \<longrightarrow>
      Write t io fd data = (Inl (Errorf ''failed to compress data'' err), fd))
   \<and> ((if compression_active t then Compress (the (Compressor t)) data else Inr data) = Inr z1 \<longrightarrow>
      encryption_active t \<longrightarrow> Encode (the (Encryptor t)) (secret t) z1 = Inl err \<longrightarrow>
      Write t io fd data = (Inl (Errorf ''failed to encrypt data'' err), fd))
   \<and> ((if compression_active t then Compress (the (Compressor t)) data else Inr data) = Inr z1 \<longrightarrow>
      (if encryption_active t then Encode (the (Encryptor t)) (secret t) z1 else Inr z1) = Inr z2 \<longrightarrow>
      Write t io fd data =
        (case rwc_Write io fd z2 of
           ((n, Some werr), fd') \<Rightarrow> (Inl (Errorf ''failed to write data'' werr), fd')
         | ((n, None), fd') \<Rightarrow> (Inr n, fd')))"
proof (intro conjI impI)
  assume "compression_active t" and "Compress (the (Compressor t)) data = Inl err"
  then have "forward_transform t data = Inl (Errorf ''failed to compress data'' err)"
    by (simp add: forward_transform_def)
  then show "Write t io fd data = (Inl (Errorf ''failed to compress data'' err), fd)"
    by (simp add: Write_forward)
next
  assume "(if compression_active t then Compress (the (Compressor t)) data else Inr data) = Inr z1"
    and "encryption_active t" and "Encode (the (Encryptor t)) (secret t) z1 = Inl err"
  then have "forward_transform t data = Inl (Errorf ''failed to encrypt data'' err)"
    by (simp add: forward_transform_def)
  then show "Write t io fd data = (Inl (Errorf ''failed to encrypt data'' err), fd)"
    by (simp add: Write_forward)
next
  assume "(if compression_active t then Compress (the (Compressor t)) data else Inr data) = Inr z1"
    and "(if encryption_active t then Encode (the (Encryptor t)) (secret t) z1 else Inr z1) = Inr z2"
  then have "forward_transform t data = Inr z2"
    by (simp add: forward_transform_def)
  then show "Write t io fd data =
        (case rwc_Write io fd z2 of
           ((n, Some werr), fd') \<Rightarrow> (Inl (Errorf ''failed to write data'' werr), fd')
         | ((n, None), fd') \<Rightarrow> (Inr n, fd'))"
    by (simp add: Write_forward)
qed

theorem Write_stage_order_and_failures_witness:
  "Write (SetCompressor NewTransformer failing_Compressor) small_rwc [] [1, 2, 3] =
     (Inl (Errorf ''failed to compress data'' (New ''cannot compress'')), [])
   \<and> Write (EnableEncryption (NewTransformer\<lparr>Encryptor := Some failing_Encryptor\<rparr>)) small_rwc [] [1, 2, 3] =
     (Inl (Errorf ''failed to encrypt data'' (New ''cannot encode'')), [])
   \<and> Write example_transformer small_rwc [] [1, 2, 3] =
     (Inl (Errorf ''failed to write data'' (New ''short write'')), [68, 2])"
proof -
  let ?tc = "SetCompressor NewTransformer failing_Compressor"
  let ?te = "EnableEncryption (NewTransformer\<lparr>Encryptor := Some failing_Encryptor\<rparr>)"
  have tc: "compression_active ?tc" "Compress (the (Compressor ?tc)) [1, 2, 3] = Inl (New ''cannot compress'')"
    by (simp_all add: active_simps SetCompressor_fields failing_Compressor_def)
  have te: "(if compression_active ?te then Compress (the (Compressor ?te)) [1, 2, 3] else Inr [1, 2, 3]) = Inr [1, 2, 3]"
      "encryption_active ?te"
      "Encode (the (Encryptor ?te)) (secret ?te) [1, 2, 3] = Inl (New ''cannot encode'')"
    by (simp_all add: active_simps NewTransformer_simps Enable_fields failing_Encryptor_def)
  have ex: "(if compression_active example_transformer
             then Compress (the (Compressor example_transformer)) [1, 2, 3] else Inr [1, 2, 3]) = Inr [67, 1, 2, 3]"
      "(if encryption_active example_transformer
        then Encode (the (Encryptor example_transformer)) (secret example_transformer) [67, 1, 2, 3]
        else Inr [67, 1, 2, 3]) = Inr [68, 2, 3, 4]"
    by (simp_all add: example_transformer_simps frame_Compressor_def shift_Encryptor_def
          secret16_def key_byte_def)
  have w: "rwc_Write small_rwc [] [68, 2, 3, 4] = ((2, Some (New ''short write'')), [68, 2])"
    by (simp add: small_rwc_def)
  from Write_stage_order_and_failures [of ?tc "[1, 2, 3]" "New ''cannot compress''" small_rwc "[]"] tc
  have 1: "Write ?tc small_rwc [] [1, 2, 3] =
             (Inl (Errorf ''failed to compress data'' (New ''cannot compress'')), [])"
    by blast
  from Write_stage_order_and_failures [of ?te "[1, 2, 3]" "New ''cannot encode''" small_rwc "[]" "[1, 2, 3]"] te
  have 2: "Write ?te small_rwc [] [1, 2, 3] =
             (Inl (Errorf ''failed to encrypt data'' (New ''cannot encode'')), [])"
    by blast
  from Write_stage_order_and_failures [of example_transformer "[1, 2, 3]" _ small_rwc "[]" "[67, 1, 2, 3]" "[68, 2, 3, 4]"] ex
  have "Write example_transformer small_rwc [] [1, 2, 3] =
          (case rwc_Write small_rwc [] [68, 2, 3, 4] of
             ((n, Some werr), fd') \<Rightarrow> (Inl (Errorf ''failed to write data'' werr), fd')
           | ((n, None), fd') \<Rightarrow> (Inr n, fd'))"
    by blast
  then have 3: "Write example_transformer small_rwc [] [1, 2, 3] =
             (Inl (Errorf ''failed to write data'' (New ''short write'')), [68, 2])"
    by (simp add: w)
  from 1 2 3 show ?thesis by blast
qed

text \<open>
  Each operation in each of the four configurations of its two gates. \<open>Write\<close> is
  determined for every input; the reads are determined for a source that fills the
  buffer and reports no error.
\<close>

lemma active_bound:
  "IsCompressionEnabled t \<Longrightarrow> Compressor t = Some c \<Longrightarrow> compression_active t"
  "IsEncryptionEnabled t \<Longrightarrow> Encryptor t = Some e \<Longrightarrow> encryption_active t"
  by (simp_all add: compression_active_def encryption_active_def)

lemma forward_transform_cases:
  "\<not> compression_active t \<Longrightarrow> \<not> encryption_active t \<Longrightarrow> forward_transform t d = Inr d"
  "compression_active t \<Longrightarrow> Compressor t = Some c \<Longrightarrow> \<not> encryption_active t \<Longrightarrow>
     forward_transform t d =
       (case Compress c d of
          Inl err \<Rightarrow> Inl (Errorf ''failed to compress data'' err)
        | Inr z \<Rightarrow> Inr z)"
  "\<not> compression_active t \<Longrightarrow> encryption_active t \<Longrightarrow> Encryptor t = Some e \<Longrightarrow>
     forward_transform t d =
       (case Encode e (secret t) d of
          Inl err \<Rightarrow> Inl (Errorf ''failed to encrypt data'' err)
        | Inr z \<Rightarrow> Inr z)"
  "compression_active t \<Longrightarrow> Compressor t = Some c \<Longrightarrow>
   encryption_active t \<Longrightarrow> Encryptor t = Some e \<Longrightarrow>
     forward_transform t d =
       (case Compress c d of
          Inl err \<Rightarrow> Inl (Errorf ''failed to compress data'' err)
        | Inr z \<Rightarrow>
            (case Encode e (secret t) z of
               Inl err \<Rightarrow> Inl (Errorf ''failed to encrypt data'' err)
             | Inr y \<Rightarrow> Inr y))"
  by (simp_all add: forward_transform_def split: sum.split)

lemma reverse_transform_cases:
  "\<not> compression_active t \<Longrightarrow> \<not> encryption_active t \<Longrightarrow> reverse_transform t d = Inr d"
  "compression_active t \<Longrightarrow> Compressor t = Some c \<Longrightarrow> \<not> encryption_active t \<Longrightarrow>
     reverse_transform t d =
       (case Decompress c d of
          Inl err \<Rightarrow> Inl (Errorf ''failed to decompress data'' err)
        | Inr z \<Rightarrow> Inr z)"
  "\<not> compression_active t \<Longrightarrow> encryption_active t \<Longrightarrow> Encryptor t = Some e \<Longrightarrow>
     reverse_transform t d =
       (case Decode e (secret t) d of
          Inl err \<Rightarrow> Inl (Errorf ''failed to decrypt data'' err)
        | Inr z \<Rightarrow> Inr z)"
  "compression_active t \<Longrightarrow> Compressor t = Some c \<Longrightarrow>
   encryption_active t \<Longrightarrow> Encryptor t = Some e \<Longrightarrow>
     reverse_transform t d =
       (case Decode e (secret t) d of
          Inl err \<Rightarrow> Inl (Errorf ''failed to decrypt data'' err)
        | Inr z \<Rightarrow>
            (case Decompress c z of
               Inl err \<Rightarrow> Inl (Errorf ''failed to decompress data'' err)
             | Inr y \<Rightarrow> Inr y))"
  by (simp_all add: reverse_transform_def split: sum.split)

lemma ReadAt_transform_cases:
  "\<not> compression_active t \<Longrightarrow> \<not> encryption_active t \<Longrightarrow> ReadAt_transform t d = Inr d"
  "compression_active t \<Longrightarrow> Compressor t = Some c \<Longrightarrow> \<not> encryption_active t \<Longrightarrow>
     ReadAt_transform t d =
       (case Decompress c d of
          Inl err \<Rightarrow> Inl (Errorf ''failed to decompress data'' err)
        | Inr z \<Rightarrow> Inr z)"
  "\<not> compression_active t \<Longrightarrow> encryption_active t \<Longrightarrow> Encryptor t = Some e \<Longrightarrow>
     ReadAt_transform t d =
       (case Decode e (secret t) d of
          Inl err \<Rightarrow> Inl (Errorf ''failed to decrypt data'' err)
        | Inr z \<Rightarrow> Inr z)"
  "compression_active t \<Longrightarrow> Compressor t = Some c \<Longrightarrow>
   encryption_active t \<Longrightarrow> Encryptor t = Some e \<Longrightarrow>
     ReadAt_transform t d =
       (case Decompress c d of
          Inl err \<Rightarrow> Inl (Errorf ''failed to decompress data'' err)
        | Inr z \<Rightarrow>
            (case Decode e (secret t) z of
               Inl err \<Rightarrow> Inl (Errorf ''failed to decrypt data'' err)
             | Inr y \<Rightarrow> Inr y))"
  by (simp_all add: ReadAt_transform_def split: sum.split)

lemma Read_full:
  assumes "0 \<le> n" and "rwc_Read io fd (nat n) = ((got, None), fdr)" and "length got = nat n"
  shows "Read t io fd n = (reverse_transform t got, fdr)"
  using assms by (simp add: Read_reverse fill_exact)

lemma ReadAt_full:
  assumes "0 \<le> n" and "ra f (nat n) off = (got, None)" and "length got = nat n"
  shows "ReadAt t ra f off n = ReadAt_transform t got"
  using assms by (simp add: ReadAt_stages fill_exact)

lemma Write_by_configuration:
  "(\<not> (IsCompressionEnabled t \<and> Compressor t \<noteq> None) \<and>
    \<not> (IsEncryptionEnabled t \<and> Encryptor t \<noteq> None) \<longrightarrow>
      Write t io fd data =
        (case rwc_Write io fd data of
           ((m, Some werr), fd') \<Rightarrow> (Inl (Errorf ''failed to write data'' werr), fd')
         | ((m, None), fd') \<Rightarrow> (Inr m, fd')))
   \<and> (IsCompressionEnabled t \<and> Compressor t = Some c \<and>
      \<not> (IsEncryptionEnabled t \<and> Encryptor t \<noteq> None) \<longrightarrow>
      Write t io fd data =
        (case Compress c data of
           Inl err \<Rightarrow> (Inl (Errorf ''failed to compress data'' err), fd)
         | Inr z \<Rightarrow>
             (case rwc_Write io fd z of
                ((m, Some werr), fd') \<Rightarrow> (Inl (Errorf ''failed to write data'' werr), fd')
              | ((m, None), fd') \<Rightarrow> (Inr m, fd'))))
   \<and> (\<not> (IsCompressionEnabled t \<and> Compressor t \<noteq> None) \<and>
      IsEncryptionEnabled t \<and> Encryptor t = Some e \<longrightarrow>
      Write t io fd data =
        (case Encode e (secret t) data of
           Inl err \<Rightarrow> (Inl (Errorf ''failed to encrypt data'' err), fd)
         | Inr z \<Rightarrow>
             (case rwc_Write io fd z of
                ((m, Some werr), fd') \<Rightarrow> (Inl (Errorf ''failed to write data'' werr), fd')
              | ((m, None), fd') \<Rightarrow> (Inr m, fd'))))
   \<and> (IsCompressionEnabled t \<and> Compressor t = Some c \<and>
      IsEncryptionEnabled t \<and> Encryptor t = Some e \<longrightarrow>
      Write t io fd data =
        (case Compress c data of
           Inl err \<Rightarrow> (Inl (Errorf ''failed to compress data'' err), fd)
         | Inr z \<Rightarrow>
             (case Encode e (secret t) z of
                Inl err \<Rightarrow> (Inl (Errorf ''failed to encrypt data'' err), fd)
              | Inr y \<Rightarrow>
                  (case rwc_Write io fd y of
                     ((m, Some werr), fd') \<Rightarrow> (Inl (Errorf ''failed to write data'' werr), fd')
                   | ((m, None), fd') \<Rightarrow> (Inr m, fd')))))"
  unfolding compression_active_def [symmetric] encryption_active_def [symmetric]
proof (intro conjI impI; elim conjE)
  assume "\<not> compression_active t" "\<not> encryption_active t"
  then show "Write t io fd data =
        (case rwc_Write io fd data of
           ((m, Some werr), fd') \<Rightarrow> (Inl (Errorf ''failed to write data'' werr), fd')
         | ((m, None), fd') \<Rightarrow> (Inr m, fd'))"
    by (simp add: Write_forward forward_transform_cases(1))
next
  assume "IsCompressionEnabled t" "Compressor t = Some c" "\<not> encryption_active t"
  then show "Write t io fd data =
        (case Compress c data of
           Inl err \<Rightarrow> (Inl (Errorf ''failed to compress data'' err), fd)
         | Inr z \<Rightarrow>
             (case rwc_Write io fd z of
                ((m, Some werr), fd') \<Rightarrow> (Inl (Errorf ''failed to write data'' werr), fd')
              | ((m, None), fd') \<Rightarrow> (Inr m, fd')))"
    by (simp add: Write_forward forward_transform_cases(2) active_bound split: sum.split)
next
  assume "\<not> compression_active t" "IsEncryptionEnabled t" "Encryptor t = Some e"
  then show "Write t io fd data =
        (case Encode e (secret t) data of
           Inl err \<Rightarrow> (Inl (Errorf ''failed to encrypt data'' err), fd)
         | Inr z \<Rightarrow>
             (case rwc_Write io fd z of
                ((m, Some werr), fd') \<Rightarrow> (Inl (Errorf ''failed to write data'' werr), fd')
              | ((m, None), fd') \<Rightarrow> (Inr m, fd')))"
    by (simp add: Write_forward forward_transform_cases(3) active_bound split: sum.split)
next
  assume "IsCompressionEnabled t" "Compressor t = Some c"
    "IsEncryptionEnabled t" "Encryptor t = Some e"
  then show "Write t io fd data =
        (case Compress c data of
           Inl err \<Rightarrow> (Inl (Errorf ''failed to compress data'' err), fd)
         | Inr z \<Rightarrow>
             (case Encode e (secret t) z of
                Inl err \<Rightarrow> (Inl (Errorf ''failed to encrypt data'' err), fd)
              | Inr y \<Rightarrow>
                  (case rwc_Write io fd y of
                     ((m, Some werr), fd') \<Rightarrow> (Inl (Errorf ''failed to write data'' werr), fd')
                   | ((m, None), fd') \<Rightarrow> (Inr m, fd'))))"
    by (simp add: Write_forward forward_transform_cases(4) active_bound split: sum.split)
qed


lemma Read_by_configuration:
  "(0 \<le> n \<and> rwc_Read io fd (nat n) = ((got, None), fdr) \<and> length got = nat n \<longrightarrow>
      (\<not> (IsCompressionEnabled t \<and> Compressor t \<noteq> None) \<and>
       \<not> (IsEncryptionEnabled t \<and> Encryptor t \<noteq> None) \<longrightarrow>
         Read t io fd n = (Inr got, fdr))
    \<and> (IsCompressionEnabled t \<and> Compressor t = Some c \<and>
       \<not> (IsEncryptionEnabled t \<and> Encryptor t \<noteq> None) \<longrightarrow>
         Read t io fd n =
           (case Decompress c got of
              Inl err \<Rightarrow> (Inl (Errorf ''failed to decompress data'' err), fdr)
            | Inr y \<Rightarrow> (Inr y, fdr)))
    \<and> (\<not> (IsCompressionEnabled t \<and> Compressor t \<noteq> None) \<and>
       IsEncryptionEnabled t \<and> Encryptor t = Some e \<longrightarrow>
         Read t io fd n =
           (case Decode e (secret t) got of
              Inl err \<Rightarrow> (Inl (Errorf ''failed to decrypt data'' err), fdr)
            | Inr y \<Rightarrow> (Inr y, fdr)))
    \<and> (IsCompressionEnabled t \<and> Compressor t = Some c \<and>
       IsEncryptionEnabled t \<and> Encryptor t = Some e \<longrightarrow>
         Read t io fd n =
           (case Decode e (secret t) got of
              Inl err \<Rightarrow> (Inl (Errorf ''failed to decrypt data'' err), fdr)
            | Inr z \<Rightarrow>
                (case Decompress c z of
                   Inl err \<Rightarrow> (Inl (Errorf ''failed to decompress data'' err), fdr)
                 | Inr y \<Rightarrow> (Inr y, fdr)))))"
proof (intro impI, elim conjE)
  assume h: "0 \<le> n" "rwc_Read io fd (nat n) = ((got, None), fdr)" "length got = nat n"
  note full = Read_full [OF h]
  show "(\<not> (IsCompressionEnabled t \<and> Compressor t \<noteq> None) \<and>
       \<not> (IsEncryptionEnabled t \<and> Encryptor t \<noteq> None) \<longrightarrow>
         Read t io fd n = (Inr got, fdr))
    \<and> (IsCompressionEnabled t \<and> Compressor t = Some c \<and>
       \<not> (IsEncryptionEnabled t \<and> Encryptor t \<noteq> None) \<longrightarrow>
         Read t io fd n =
           (case Decompress c got of
              Inl err \<Rightarrow> (Inl (Errorf ''failed to decompress data'' err), fdr)
            | Inr y \<Rightarrow> (Inr y, fdr)))
    \<and> (\<not> (IsCompressionEnabled t \<and> Compressor t \<noteq> None) \<and>
       IsEncryptionEnabled t \<and> Encryptor t = Some e \<longrightarrow>
         Read t io fd n =
           (case Decode e (secret t) got of
              Inl err \<Rightarrow> (Inl (Errorf ''failed to decrypt data'' err), fdr)
            | Inr y \<Rightarrow> (Inr y, fdr)))
    \<and> (IsCompressionEnabled t \<and> Compressor t = Some c \<and>
       IsEncryptionEnabled t \<and> Encryptor t = Some e \<longrightarrow>
         Read t io fd n =
           (case Decode e (secret t) got of
              Inl err \<Rightarrow> (Inl (Errorf ''failed to decrypt data'' err), fdr)
            | Inr z \<Rightarrow>
                (case Decompress c z of
                   Inl err \<Rightarrow> (Inl (Errorf ''failed to decompress data'' err), fdr)
                 | Inr y \<Rightarrow> (Inr y, fdr))))"
    unfolding compression_active_def [symmetric] encryption_active_def [symmetric]
  proof (intro conjI impI; elim conjE)
    assume "\<not> compression_active t" "\<not> encryption_active t"
    then show "Read t io fd n = (Inr got, fdr)"
      by (simp add: full reverse_transform_cases(1))
  next
    assume "IsCompressionEnabled t" "Compressor t = Some c" "\<not> encryption_active t"
    then show "Read t io fd n =
           (case Decompress c got of
              Inl err \<Rightarrow> (Inl (Errorf ''failed to decompress data'' err), fdr)
            | Inr y \<Rightarrow> (Inr y, fdr))"
      by (simp add: full reverse_transform_cases(2) active_bound split: sum.split)
  next
    assume "\<not> compression_active t" "IsEncryptionEnabled t" "Encryptor t = Some e"
    then show "Read t io fd n =
           (case Decode e (secret t) got of
              Inl err \<Rightarrow> (Inl (Errorf ''failed to decrypt data'' err), fdr)
            | Inr y \<Rightarrow> (Inr y, fdr))"
      by (simp add: full reverse_transform_cases(3) active_bound split: sum.split)
  next
    assume "IsCompressionEnabled t" "Compressor t = Some c"
      "IsEncryptionEnabled t" "Encryptor t = Some e"
    then show "Read t io fd n =
           (case Decode e (secret t) got of
              Inl err \<Rightarrow> (Inl (Errorf ''failed to decrypt data'' err), fdr)
            | Inr z \<Rightarrow>
                (case Decompress c z of
                   Inl err \<Rightarrow> (Inl (Errorf ''failed to decompress data'' err), fdr)
                 | Inr y \<Rightarrow> (Inr y, fdr)))"
      by (simp add: full reverse_transform_cases(4) active_bound split: sum.split)
  qed
qed

lemma ReadAt_by_configuration:
  "(0 \<le> n \<and> ra f (nat n) off = (got', None) \<and> length got' = nat n \<longrightarrow>
      (\<not> (IsCompressionEnabled t \<and> Compressor t \<noteq> None) \<and>
       \<not> (IsEncryptionEnabled t \<and> Encryptor t \<noteq> None) \<longrightarrow>
         ReadAt t ra f off n = Inr got')
    \<and> (IsCompressionEnabled t \<and> Compressor t = Some c \<and>
       \<not> (IsEncryptionEnabled t \<and> Encryptor t \<noteq> None) \<longrightarrow>
         ReadAt t ra f off n =
           (case Decompress c got' of
              Inl err \<Rightarrow> Inl (Errorf ''failed to decompress data'' err)
            | Inr y \<Rightarrow> Inr y))
    \<and> (\<not> (IsCompressionEnabled t \<and> Compressor t \<noteq> None) \<and>
       IsEncryptionEnabled t \<and> Encryptor t = Some e \<longrightarrow>
         ReadAt t ra f off n =
           (case Decode e (secret t) got' of
              Inl err \<Rightarrow> Inl (Errorf ''failed to decrypt data'' err)
            | Inr y \<Rightarrow> Inr y))
    \<and> (IsCompressionEnabled t \<and> Compressor t = Some c \<and>
       IsEncryptionEnabled t \<and> Encryptor t = Some e \<longrightarrow>
         ReadAt t ra f off n =
           (case Decompress c got' of
              Inl err \<Rightarrow> Inl (Errorf ''failed to decompress data'' err)
            | Inr z \<Rightarrow>
                (case Decode e (secret t) z of
                   Inl err \<Rightarrow> Inl (Errorf ''failed to decrypt data'' err)
                 | Inr y \<Rightarrow> Inr y))))"
proof (intro impI, elim conjE)
  assume h: "0 \<le> n" "ra f (nat n) off = (got', None)" "length got' = nat n"
  note full = ReadAt_full [of n ra f off got', OF h]
  show "(\<not> (IsCompressionEnabled t \<and> Compressor t \<noteq> None) \<and>
       \<not> (IsEncryptionEnabled t \<and> Encryptor t \<noteq> None) \<longrightarrow>
         ReadAt t ra f off n = Inr got')
    \<and> (IsCompressionEnabled t \<and> Compressor t = Some c \<and>
       \<not> (IsEncryptionEnabled t \<and> Encryptor t \<noteq> None) \<longrightarrow>
         ReadAt t ra f off n =
           (case Decompress c got' of
              Inl err \<Rightarrow> Inl (Errorf ''failed to decompress data'' err)
            | Inr y \<Rightarrow> Inr y))
    \<and> (\<not> (IsCompressionEnabled t \<and> Compressor t \<noteq> None) \<and>
       IsEncryptionEnabled t \<and> Encryptor t = Some e \<longrightarrow>
         ReadAt t ra f off n =
           (case Decode e (secret t) got' of
              Inl err \<Rightarrow> Inl (Errorf ''failed to decrypt data'' err)
            | Inr y \<Rightarrow> Inr y))
    \<and> (IsCompressionEnabled t \<and> Compressor t = Some c \<and>
       IsEncryptionEnabled t \<and> Encryptor t = Some e \<longrightarrow>
         ReadAt t ra f off n =
           (case Decompress c got' of
              Inl err \<Rightarrow> Inl (Errorf ''failed to decompress data'' err)
            | Inr z \<Rightarrow>
                (case Decode e (secret t) z of
                   Inl err \<Rightarrow> Inl (Errorf ''failed to decrypt data'' err)
                 | Inr y \<Rightarrow> Inr y)))"
    unfolding compression_active_def [symmetric] encryption_active_def [symmetric]
  proof (intro conjI impI; elim conjE)
    assume "\<not> compression_active t" "\<not> encryption_active t"
    then show "ReadAt t ra f off n = Inr got'"
      by (simp add: full ReadAt_transform_cases(1))
  next
    assume "IsCompressionEnabled t" "Compressor t = Some c" "\<not> encryption_active t"
    then show "ReadAt t ra f off n =
           (case Decompress c got' of
              Inl err \<Rightarrow> Inl (Errorf ''failed to decompress data'' err)
            | Inr y \<Rightarrow> Inr y)"
      by (simp add: full ReadAt_transform_cases(2) active_bound)
  next
    assume "\<not> compression_active t" "IsEncryptionEnabled t" "Encryptor t = Some e"
    then show "ReadAt t ra f off n =
           (case Decode e (secret t) got' of
              Inl err \<Rightarrow> Inl (Errorf ''failed to decrypt data'' err)
            | Inr y \<Rightarrow> Inr y)"
      by (simp add: full ReadAt_transform_cases(3) active_bound)
  next
    assume "IsCompressionEnabled t" "Compressor t = Some c"
      "IsEncryptionEnabled t" "Encryptor t = Some e"
    then show "ReadAt t ra f off n =
           (case Decompress c got' of
              Inl err \<Rightarrow> Inl (Errorf ''failed to decompress data'' err)
            | Inr z \<Rightarrow>
                (case Decode e (secret t) z of
                   Inl err \<Rightarrow> Inl (Errorf ''failed to decrypt data'' err)
                 | Inr y \<Rightarrow> Inr y))"
      by (simp add: full ReadAt_transform_cases(4) active_bound)
  qed
qed

lemma unbound_transformer_simps:
  "IsCompressionEnabled unbound_transformer"
  "IsEncryptionEnabled unbound_transformer"
  "Compressor unbound_transformer = None"
  "Encryptor unbound_transformer = None"
  by (simp_all add: unbound_transformer_def flag_simps Enable_fields NewTransformer_def)

lemma encryptor_bound_transformer_simps:
  "IsCompressionEnabled encryptor_bound_transformer"
  "IsEncryptionEnabled encryptor_bound_transformer"
  "Compressor encryptor_bound_transformer = None"
  "Encryptor encryptor_bound_transformer = Some shift_Encryptor"
  "secret encryptor_bound_transformer = secret16"
  by (simp_all add: encryptor_bound_transformer_def SetEncryptor_def secret16_def flag_simps
        flag_field_simps Enable_fields NewTransformer_def)

text \<open>
  A stage whose gate is closed behaves as a bound and enabled capability that returns
  its input; a stage whose gate is open is the capability's function composed with the
  same operation without the stage.
\<close>

lemma stage_relations:
  "(\<not> (IsCompressionEnabled t \<and> Compressor t \<noteq> None) \<longrightarrow>
      Write t io fd data = Write (SetCompressor t passthrough_Compressor) io fd data
    \<and> Read t io fd n = Read (SetCompressor t passthrough_Compressor) io fd n
    \<and> ReadAt t ra f off n = ReadAt (SetCompressor t passthrough_Compressor) ra f off n)
   \<and> (\<not> (IsEncryptionEnabled t \<and> Encryptor t \<noteq> None) \<longrightarrow>
      Write t io fd data =
        Write (EnableEncryption (t\<lparr>Encryptor := Some passthrough_Encryptor\<rparr>)) io fd data
    \<and> Read t io fd n =
        Read (EnableEncryption (t\<lparr>Encryptor := Some passthrough_Encryptor\<rparr>)) io fd n
    \<and> ReadAt t ra f off n =
        ReadAt (EnableEncryption (t\<lparr>Encryptor := Some passthrough_Encryptor\<rparr>)) ra f off n)
   \<and> (IsCompressionEnabled t \<and> Compressor t = Some c \<longrightarrow>
      Write t io fd data =
        (case Compress c data of
           Inl err \<Rightarrow> (Inl (Errorf ''failed to compress data'' err), fd)
         | Inr z \<Rightarrow> Write (t\<lparr>Compressor := None\<rparr>) io fd z)
    \<and> Read t io fd n =
        (case Read (t\<lparr>Compressor := None\<rparr>) io fd n of
           (Inl err, fd') \<Rightarrow> (Inl err, fd')
         | (Inr b, fd') \<Rightarrow>
             (case Decompress c b of
                Inl err \<Rightarrow> (Inl (Errorf ''failed to decompress data'' err), fd')
              | Inr y \<Rightarrow> (Inr y, fd')))
    \<and> (\<not> (IsEncryptionEnabled t \<and> Encryptor t \<noteq> None) \<longrightarrow>
        ReadAt t ra f off n =
          (case ReadAt (t\<lparr>Compressor := None\<rparr>) ra f off n of
             Inl err \<Rightarrow> Inl err
           | Inr b \<Rightarrow>
               (case Decompress c b of
                  Inl err \<Rightarrow> Inl (Errorf ''failed to decompress data'' err)
                | Inr y \<Rightarrow> Inr y))))
   \<and> (IsEncryptionEnabled t \<and> Encryptor t = Some e \<longrightarrow>
      ReadAt t ra f off n =
        (case ReadAt (t\<lparr>Encryptor := None\<rparr>) ra f off n of
           Inl err \<Rightarrow> Inl err
         | Inr b \<Rightarrow>
             (case Decode e (secret t) b of
                Inl err \<Rightarrow> Inl (Errorf ''failed to decrypt data'' err)
              | Inr y \<Rightarrow> Inr y))
    \<and> (\<not> (IsCompressionEnabled t \<and> Compressor t \<noteq> None) \<longrightarrow>
        Write t io fd data =
          (case Encode e (secret t) data of
             Inl err \<Rightarrow> (Inl (Errorf ''failed to encrypt data'' err), fd)
           | Inr z \<Rightarrow> Write (t\<lparr>Encryptor := None\<rparr>) io fd z)
      \<and> Read t io fd n =
          (case Read (t\<lparr>Encryptor := None\<rparr>) io fd n of
             (Inl err, fd') \<Rightarrow> (Inl err, fd')
           | (Inr b, fd') \<Rightarrow>
               (case Decode e (secret t) b of
                  Inl err \<Rightarrow> (Inl (Errorf ''failed to decrypt data'' err), fd')
                | Inr y \<Rightarrow> (Inr y, fd')))))"
proof -
  have ci: "Write t io fd data = Write (SetCompressor t passthrough_Compressor) io fd data
      \<and> Read t io fd n = Read (SetCompressor t passthrough_Compressor) io fd n
      \<and> ReadAt t ra f off n = ReadAt (SetCompressor t passthrough_Compressor) ra f off n"
    if "\<not> compression_active t"
    using that
    by (simp add: Write_cong_forward [OF forward_compression_inactive]
          Read_cong_reverse [OF reverse_compression_inactive]
          ReadAt_cong_transform [OF ReadAt_transform_compression_inactive])
  have ei: "Write t io fd data =
        Write (EnableEncryption (t\<lparr>Encryptor := Some passthrough_Encryptor\<rparr>)) io fd data
      \<and> Read t io fd n =
        Read (EnableEncryption (t\<lparr>Encryptor := Some passthrough_Encryptor\<rparr>)) io fd n
      \<and> ReadAt t ra f off n =
        ReadAt (EnableEncryption (t\<lparr>Encryptor := Some passthrough_Encryptor\<rparr>)) ra f off n"
    if "\<not> encryption_active t"
    using that
    by (simp add: Write_cong_forward [OF forward_encryption_inactive]
          Read_cong_reverse [OF reverse_encryption_inactive]
          ReadAt_cong_transform [OF ReadAt_transform_encryption_inactive])
  have ca1: "Write t io fd data =
        (case Compress c data of
           Inl err \<Rightarrow> (Inl (Errorf ''failed to compress data'' err), fd)
         | Inr z \<Rightarrow> Write (t\<lparr>Compressor := None\<rparr>) io fd z)"
    if "compression_active t" "Compressor t = Some c"
    by (rule Write_stage_applied) (rule forward_compression_applied [OF that])
  have ca2: "Read t io fd n =
        (case Read (t\<lparr>Compressor := None\<rparr>) io fd n of
           (Inl err, fd') \<Rightarrow> (Inl err, fd')
         | (Inr b, fd') \<Rightarrow>
             (case Decompress c b of
                Inl err \<Rightarrow> (Inl (Errorf ''failed to decompress data'' err), fd')
              | Inr y \<Rightarrow> (Inr y, fd')))"
    if "compression_active t" "Compressor t = Some c"
    by (rule Read_stage_applied) (rule reverse_compression_applied [OF that])
  have ca3: "ReadAt t ra f off n =
          (case ReadAt (t\<lparr>Compressor := None\<rparr>) ra f off n of
             Inl err \<Rightarrow> Inl err
           | Inr b \<Rightarrow>
               (case Decompress c b of
                  Inl err \<Rightarrow> Inl (Errorf ''failed to decompress data'' err)
                | Inr y \<Rightarrow> Inr y))"
    if "compression_active t" "Compressor t = Some c" "\<not> encryption_active t"
    by (rule ReadAt_stage_applied) (rule ReadAt_transform_compression_applied [OF that])
  have ea1: "ReadAt t ra f off n =
        (case ReadAt (t\<lparr>Encryptor := None\<rparr>) ra f off n of
           Inl err \<Rightarrow> Inl err
         | Inr b \<Rightarrow>
             (case Decode e (secret t) b of
                Inl err \<Rightarrow> Inl (Errorf ''failed to decrypt data'' err)
              | Inr y \<Rightarrow> Inr y))"
    if "encryption_active t" "Encryptor t = Some e"
    by (rule ReadAt_stage_applied) (rule ReadAt_transform_encryption_applied [OF that])
  have ea2: "Write t io fd data =
          (case Encode e (secret t) data of
             Inl err \<Rightarrow> (Inl (Errorf ''failed to encrypt data'' err), fd)
           | Inr z \<Rightarrow> Write (t\<lparr>Encryptor := None\<rparr>) io fd z)"
    if "encryption_active t" "Encryptor t = Some e" "\<not> compression_active t"
    by (rule Write_stage_applied) (rule forward_encryption_applied [OF that])
  have ea3: "Read t io fd n =
          (case Read (t\<lparr>Encryptor := None\<rparr>) io fd n of
             (Inl err, fd') \<Rightarrow> (Inl err, fd')
           | (Inr b, fd') \<Rightarrow>
               (case Decode e (secret t) b of
                  Inl err \<Rightarrow> (Inl (Errorf ''failed to decrypt data'' err), fd')
                | Inr y \<Rightarrow> (Inr y, fd')))"
    if "encryption_active t" "Encryptor t = Some e" "\<not> compression_active t"
    by (rule Read_stage_applied) (rule reverse_encryption_applied [OF that])
  have cA: "compression_active t" if "IsCompressionEnabled t \<and> Compressor t = Some c"
    using that by (simp add: compression_active_def)
  have eA: "encryption_active t" if "IsEncryptionEnabled t \<and> Encryptor t = Some e"
    using that by (simp add: encryption_active_def)
  show ?thesis
    unfolding compression_active_def [symmetric] encryption_active_def [symmetric]
    using ci ei ca1 ca2 ca3 ea1 ea2 ea3 cA eA
    by (intro conjI impI) (blast+)
qed

text \<open>
  C7. In \<open>Write\<close>, \<open>Read\<close> and \<open>ReadAt\<close>, the transform of a stage is applied if and only
  if its flag is set and its capability is bound. With both gates closed, and so with a
  flag set and nothing bound, \<open>Write\<close> hands the payload itself to the sink, and
  \<open>Read\<close> and \<open>ReadAt\<close> return the bytes that the source delivered, with no error from a
  stage. With a gate open, the capability's function is applied (for \<open>Write\<close>
  \<open>Compress\<close> then \<open>Encode\<close>, for \<open>Read\<close> \<open>Decode\<close> then \<open>Decompress\<close>, for \<open>ReadAt\<close>
  \<open>Decompress\<close> then \<open>Decode\<close>) and its failure is the error of that stage. A closed
  gate moreover behaves as a bound capability that returns its input, and an open one
  composes the capability with the operation without the stage, on every input.
\<close>

theorem stage_runs_iff_flag_set_and_capability_bound:
  "(\<not> (IsCompressionEnabled t \<and> Compressor t \<noteq> None) \<longrightarrow>
      Write t io fd data = Write (SetCompressor t passthrough_Compressor) io fd data
    \<and> Read t io fd n = Read (SetCompressor t passthrough_Compressor) io fd n
    \<and> ReadAt t ra f off n = ReadAt (SetCompressor t passthrough_Compressor) ra f off n)
   \<and> (\<not> (IsEncryptionEnabled t \<and> Encryptor t \<noteq> None) \<longrightarrow>
      Write t io fd data =
        Write (EnableEncryption (t\<lparr>Encryptor := Some passthrough_Encryptor\<rparr>)) io fd data
    \<and> Read t io fd n =
        Read (EnableEncryption (t\<lparr>Encryptor := Some passthrough_Encryptor\<rparr>)) io fd n
    \<and> ReadAt t ra f off n =
        ReadAt (EnableEncryption (t\<lparr>Encryptor := Some passthrough_Encryptor\<rparr>)) ra f off n)
   \<and> (IsCompressionEnabled t \<and> Compressor t = Some c \<longrightarrow>
      Write t io fd data =
        (case Compress c data of
           Inl err \<Rightarrow> (Inl (Errorf ''failed to compress data'' err), fd)
         | Inr z \<Rightarrow> Write (t\<lparr>Compressor := None\<rparr>) io fd z)
    \<and> Read t io fd n =
        (case Read (t\<lparr>Compressor := None\<rparr>) io fd n of
           (Inl err, fd') \<Rightarrow> (Inl err, fd')
         | (Inr b, fd') \<Rightarrow>
             (case Decompress c b of
                Inl err \<Rightarrow> (Inl (Errorf ''failed to decompress data'' err), fd')
              | Inr y \<Rightarrow> (Inr y, fd')))
    \<and> (\<not> (IsEncryptionEnabled t \<and> Encryptor t \<noteq> None) \<longrightarrow>
        ReadAt t ra f off n =
          (case ReadAt (t\<lparr>Compressor := None\<rparr>) ra f off n of
             Inl err \<Rightarrow> Inl err
           | Inr b \<Rightarrow>
               (case Decompress c b of
                  Inl err \<Rightarrow> Inl (Errorf ''failed to decompress data'' err)
                | Inr y \<Rightarrow> Inr y))))
   \<and> (IsEncryptionEnabled t \<and> Encryptor t = Some e \<longrightarrow>
      ReadAt t ra f off n =
        (case ReadAt (t\<lparr>Encryptor := None\<rparr>) ra f off n of
           Inl err \<Rightarrow> Inl err
         | Inr b \<Rightarrow>
             (case Decode e (secret t) b of
                Inl err \<Rightarrow> Inl (Errorf ''failed to decrypt data'' err)
              | Inr y \<Rightarrow> Inr y))
    \<and> (\<not> (IsCompressionEnabled t \<and> Compressor t \<noteq> None) \<longrightarrow>
        Write t io fd data =
          (case Encode e (secret t) data of
             Inl err \<Rightarrow> (Inl (Errorf ''failed to encrypt data'' err), fd)
           | Inr z \<Rightarrow> Write (t\<lparr>Encryptor := None\<rparr>) io fd z)
      \<and> Read t io fd n =
          (case Read (t\<lparr>Encryptor := None\<rparr>) io fd n of
             (Inl err, fd') \<Rightarrow> (Inl err, fd')
           | (Inr b, fd') \<Rightarrow>
               (case Decode e (secret t) b of
                  Inl err \<Rightarrow> (Inl (Errorf ''failed to decrypt data'' err), fd')
                | Inr y \<Rightarrow> (Inr y, fd')))))
   \<and> (\<not> (IsCompressionEnabled t \<and> Compressor t \<noteq> None) \<and>
    \<not> (IsEncryptionEnabled t \<and> Encryptor t \<noteq> None) \<longrightarrow>
      Write t io fd data =
        (case rwc_Write io fd data of
           ((m, Some werr), fd') \<Rightarrow> (Inl (Errorf ''failed to write data'' werr), fd')
         | ((m, None), fd') \<Rightarrow> (Inr m, fd')))
   \<and> (IsCompressionEnabled t \<and> Compressor t = Some c \<and>
      \<not> (IsEncryptionEnabled t \<and> Encryptor t \<noteq> None) \<longrightarrow>
      Write t io fd data =
        (case Compress c data of
           Inl err \<Rightarrow> (Inl (Errorf ''failed to compress data'' err), fd)
         | Inr z \<Rightarrow>
             (case rwc_Write io fd z of
                ((m, Some werr), fd') \<Rightarrow> (Inl (Errorf ''failed to write data'' werr), fd')
              | ((m, None), fd') \<Rightarrow> (Inr m, fd'))))
   \<and> (\<not> (IsCompressionEnabled t \<and> Compressor t \<noteq> None) \<and>
      IsEncryptionEnabled t \<and> Encryptor t = Some e \<longrightarrow>
      Write t io fd data =
        (case Encode e (secret t) data of
           Inl err \<Rightarrow> (Inl (Errorf ''failed to encrypt data'' err), fd)
         | Inr z \<Rightarrow>
             (case rwc_Write io fd z of
                ((m, Some werr), fd') \<Rightarrow> (Inl (Errorf ''failed to write data'' werr), fd')
              | ((m, None), fd') \<Rightarrow> (Inr m, fd'))))
   \<and> (IsCompressionEnabled t \<and> Compressor t = Some c \<and>
      IsEncryptionEnabled t \<and> Encryptor t = Some e \<longrightarrow>
      Write t io fd data =
        (case Compress c data of
           Inl err \<Rightarrow> (Inl (Errorf ''failed to compress data'' err), fd)
         | Inr z \<Rightarrow>
             (case Encode e (secret t) z of
                Inl err \<Rightarrow> (Inl (Errorf ''failed to encrypt data'' err), fd)
              | Inr y \<Rightarrow>
                  (case rwc_Write io fd y of
                     ((m, Some werr), fd') \<Rightarrow> (Inl (Errorf ''failed to write data'' werr), fd')
                   | ((m, None), fd') \<Rightarrow> (Inr m, fd')))))
   \<and> (0 \<le> n \<and> rwc_Read io fd (nat n) = ((got, None), fdr) \<and> length got = nat n \<longrightarrow>
      (\<not> (IsCompressionEnabled t \<and> Compressor t \<noteq> None) \<and>
       \<not> (IsEncryptionEnabled t \<and> Encryptor t \<noteq> None) \<longrightarrow>
         Read t io fd n = (Inr got, fdr))
    \<and> (IsCompressionEnabled t \<and> Compressor t = Some c \<and>
       \<not> (IsEncryptionEnabled t \<and> Encryptor t \<noteq> None) \<longrightarrow>
         Read t io fd n =
           (case Decompress c got of
              Inl err \<Rightarrow> (Inl (Errorf ''failed to decompress data'' err), fdr)
            | Inr y \<Rightarrow> (Inr y, fdr)))
    \<and> (\<not> (IsCompressionEnabled t \<and> Compressor t \<noteq> None) \<and>
       IsEncryptionEnabled t \<and> Encryptor t = Some e \<longrightarrow>
         Read t io fd n =
           (case Decode e (secret t) got of
              Inl err \<Rightarrow> (Inl (Errorf ''failed to decrypt data'' err), fdr)
            | Inr y \<Rightarrow> (Inr y, fdr)))
    \<and> (IsCompressionEnabled t \<and> Compressor t = Some c \<and>
       IsEncryptionEnabled t \<and> Encryptor t = Some e \<longrightarrow>
         Read t io fd n =
           (case Decode e (secret t) got of
              Inl err \<Rightarrow> (Inl (Errorf ''failed to decrypt data'' err), fdr)
            | Inr z \<Rightarrow>
                (case Decompress c z of
                   Inl err \<Rightarrow> (Inl (Errorf ''failed to decompress data'' err), fdr)
                 | Inr y \<Rightarrow> (Inr y, fdr)))))
   \<and> (0 \<le> n \<and> ra f (nat n) off = (got', None) \<and> length got' = nat n \<longrightarrow>
      (\<not> (IsCompressionEnabled t \<and> Compressor t \<noteq> None) \<and>
       \<not> (IsEncryptionEnabled t \<and> Encryptor t \<noteq> None) \<longrightarrow>
         ReadAt t ra f off n = Inr got')
    \<and> (IsCompressionEnabled t \<and> Compressor t = Some c \<and>
       \<not> (IsEncryptionEnabled t \<and> Encryptor t \<noteq> None) \<longrightarrow>
         ReadAt t ra f off n =
           (case Decompress c got' of
              Inl err \<Rightarrow> Inl (Errorf ''failed to decompress data'' err)
            | Inr y \<Rightarrow> Inr y))
    \<and> (\<not> (IsCompressionEnabled t \<and> Compressor t \<noteq> None) \<and>
       IsEncryptionEnabled t \<and> Encryptor t = Some e \<longrightarrow>
         ReadAt t ra f off n =
           (case Decode e (secret t) got' of
              Inl err \<Rightarrow> Inl (Errorf ''failed to decrypt data'' err)
            | Inr y \<Rightarrow> Inr y))
    \<and> (IsCompressionEnabled t \<and> Compressor t = Some c \<and>
       IsEncryptionEnabled t \<and> Encryptor t = Some e \<longrightarrow>
         ReadAt t ra f off n =
           (case Decompress c got' of
              Inl err \<Rightarrow> Inl (Errorf ''failed to decompress data'' err)
            | Inr z \<Rightarrow>
                (case Decode e (secret t) z of
                   Inl err \<Rightarrow> Inl (Errorf ''failed to decrypt data'' err)
                 | Inr y \<Rightarrow> Inr y))))"
  using conjI [OF stage_relations [of t io fd data n ra f off c e]
          conjI [OF Write_by_configuration [of t io fd data c e]
            conjI [OF Read_by_configuration [of n io fd got fdr t c e]
                      ReadAt_by_configuration [of n ra f off got' t c e]]]]
  by (simp only: conj_assoc)

theorem stage_runs_iff_flag_set_and_capability_bound_witness:
  "IsCompressionEnabled unbound_transformer \<and> Compressor unbound_transformer = None
   \<and> IsEncryptionEnabled unbound_transformer \<and> Encryptor unbound_transformer = None
   \<and> Write unbound_transformer mem_rwc [] [1, 2, 3] = (Inr 3, [1, 2, 3])
   \<and> Read unbound_transformer mem_rwc [1, 2, 3] 3 = (Inr [1, 2, 3], [])
   \<and> ReadAt unbound_transformer osfile_ReadAt [1, 2, 3] 0 3 = Inr [1, 2, 3]
   \<and> IsCompressionEnabled encryptor_bound_transformer
   \<and> Compressor encryptor_bound_transformer = None
   \<and> IsEncryptionEnabled encryptor_bound_transformer
   \<and> Encryptor encryptor_bound_transformer = Some shift_Encryptor
   \<and> Write encryptor_bound_transformer mem_rwc [] [1, 2, 3] = (Inr 3, [2, 3, 4])
   \<and> Read encryptor_bound_transformer mem_rwc [2, 3, 4] 3 = (Inr [1, 2, 3], [])
   \<and> ReadAt encryptor_bound_transformer osfile_ReadAt [2, 3, 4] 0 3 = Inr [1, 2, 3]
   \<and> Read example_transformer mem_rwc [68, 2, 3, 4] 4 = (Inr [1, 2, 3], [])
   \<and> \<not> IsCompressionEnabled (DisableAll example_transformer)
   \<and> \<not> IsEncryptionEnabled (DisableAll example_transformer)
   \<and> Compressor (DisableAll example_transformer) = Some frame_Compressor
   \<and> Encryptor (DisableAll example_transformer) = Some shift_Encryptor
   \<and> Read (DisableAll example_transformer) mem_rwc [1, 2, 3] 3 = (Inr [1, 2, 3], [])
   \<and> Write example_transformer mem_rwc [] [1, 2, 3] =
       Write (example_transformer\<lparr>Compressor := None\<rparr>) mem_rwc [] [67, 1, 2, 3]"
proof -
  note U = unbound_transformer_simps
  note E = encryptor_bound_transformer_simps
  have off: "\<not> (IsCompressionEnabled unbound_transformer \<and> Compressor unbound_transformer \<noteq> None)
         \<and> \<not> (IsEncryptionEnabled unbound_transformer \<and> Encryptor unbound_transformer \<noteq> None)"
    by (simp add: U)
  have enc: "\<not> (IsCompressionEnabled encryptor_bound_transformer
                 \<and> Compressor encryptor_bound_transformer \<noteq> None)
         \<and> IsEncryptionEnabled encryptor_bound_transformer
         \<and> Encryptor encryptor_bound_transformer = Some shift_Encryptor"
    by (simp add: E)
  have both: "IsCompressionEnabled example_transformer
         \<and> Compressor example_transformer = Some frame_Compressor
         \<and> IsEncryptionEnabled example_transformer
         \<and> Encryptor example_transformer = Some shift_Encryptor"
    using example_transformer_simps by (simp add: compression_active_def encryption_active_def)
  have rd3: "(0::int) \<le> 3 \<and> rwc_Read mem_rwc [1, 2, 3] (nat 3) = (([1, 2, 3], None), [])
         \<and> length [1, 2, 3 :: byte] = nat 3"
    by (simp add: mem_rwc_def)
  have ra3: "(0::int) \<le> 3 \<and> osfile_ReadAt [1, 2, 3] (nat 3) 0 = ([1, 2, 3], None)
         \<and> length [1, 2, 3 :: byte] = nat 3"
    by (simp add: osfile_ReadAt_def)
  have rd3e: "(0::int) \<le> 3 \<and> rwc_Read mem_rwc [2, 3, 4] (nat 3) = (([2, 3, 4], None), [])
         \<and> length [2, 3, 4 :: byte] = nat 3"
    by (simp add: mem_rwc_def)
  have ra3e: "(0::int) \<le> 3 \<and> osfile_ReadAt [2, 3, 4] (nat 3) 0 = ([2, 3, 4], None)
         \<and> length [2, 3, 4 :: byte] = nat 3"
    by (simp add: osfile_ReadAt_def)
  have rd4: "(0::int) \<le> 4 \<and> rwc_Read mem_rwc [68, 2, 3, 4] (nat 4) = (([68, 2, 3, 4], None), [])
         \<and> length [68, 2, 3, 4 :: byte] = nat 4"
    by (simp add: mem_rwc_def)
  note T = stage_runs_iff_flag_set_and_capability_bound
  have "Write unbound_transformer mem_rwc [] [1, 2, 3] =
        (case rwc_Write mem_rwc [] [1, 2, 3] of
           ((m, Some werr), fd') \<Rightarrow> (Inl (Errorf ''failed to write data'' werr), fd')
         | ((m, None), fd') \<Rightarrow> (Inr m, fd'))"
    by (rule T [THEN conjunct2, THEN conjunct2, THEN conjunct2, THEN conjunct2, THEN conjunct1, THEN mp, OF off])
  then have 1: "Write unbound_transformer mem_rwc [] [1, 2, 3] = (Inr 3, [1, 2, 3])"
    by (simp add: mem_rwc_def)
  have 2: "Read unbound_transformer mem_rwc [1, 2, 3] 3 = (Inr [1, 2, 3], [])"
    by (rule T [THEN conjunct2, THEN conjunct2, THEN conjunct2, THEN conjunct2, THEN conjunct2, THEN conjunct2, THEN conjunct2, THEN conjunct2, THEN conjunct1, THEN mp, OF rd3, THEN conjunct1,
                THEN mp, OF off])
  have 3: "ReadAt unbound_transformer osfile_ReadAt [1, 2, 3] 0 3 = Inr [1, 2, 3]"
    by (rule T [where ra = osfile_ReadAt and f = "[1, 2, 3]" and off = 0 and n = 3
                  and got' = "[1, 2, 3]",
                THEN conjunct2, THEN conjunct2, THEN conjunct2, THEN conjunct2, THEN conjunct2, THEN conjunct2, THEN conjunct2, THEN conjunct2, THEN conjunct2, THEN mp, OF ra3,
                THEN conjunct1, THEN mp, OF off])
  have "Write encryptor_bound_transformer mem_rwc [] [1, 2, 3] =
        (case Encode shift_Encryptor (secret encryptor_bound_transformer) [1, 2, 3] of
           Inl err \<Rightarrow> (Inl (Errorf ''failed to encrypt data'' err), [])
         | Inr z \<Rightarrow>
             (case rwc_Write mem_rwc [] z of
                ((m, Some werr), fd') \<Rightarrow> (Inl (Errorf ''failed to write data'' werr), fd')
              | ((m, None), fd') \<Rightarrow> (Inr m, fd')))"
    by (rule T [THEN conjunct2, THEN conjunct2, THEN conjunct2, THEN conjunct2, THEN conjunct2, THEN conjunct2, THEN conjunct1, THEN mp, OF enc])
  then have 4: "Write encryptor_bound_transformer mem_rwc [] [1, 2, 3] = (Inr 3, [2, 3, 4])"
    by (simp add: E shift_Encryptor_def secret16_def key_byte_def mem_rwc_def)
  have "Read encryptor_bound_transformer mem_rwc [2, 3, 4] 3 =
        (case Decode shift_Encryptor (secret encryptor_bound_transformer) [2, 3, 4] of
           Inl err \<Rightarrow> (Inl (Errorf ''failed to decrypt data'' err), [])
         | Inr y \<Rightarrow> (Inr y, []))"
    by (rule T [THEN conjunct2, THEN conjunct2, THEN conjunct2, THEN conjunct2, THEN conjunct2, THEN conjunct2, THEN conjunct2, THEN conjunct2, THEN conjunct1, THEN mp, OF rd3e, THEN conjunct2,
                THEN conjunct2, THEN conjunct1, THEN mp, OF enc])
  then have 5: "Read encryptor_bound_transformer mem_rwc [2, 3, 4] 3 = (Inr [1, 2, 3], [])"
    by (simp add: E shift_Encryptor_def secret16_def key_byte_def)
  have "ReadAt encryptor_bound_transformer osfile_ReadAt [2, 3, 4] 0 3 =
        (case Decode shift_Encryptor (secret encryptor_bound_transformer) [2, 3, 4] of
           Inl err \<Rightarrow> Inl (Errorf ''failed to decrypt data'' err)
         | Inr y \<Rightarrow> Inr y)"
    by (rule T [where ra = osfile_ReadAt and f = "[2, 3, 4]" and off = 0 and n = 3
                  and got' = "[2, 3, 4]",
                THEN conjunct2, THEN conjunct2, THEN conjunct2, THEN conjunct2, THEN conjunct2, THEN conjunct2, THEN conjunct2, THEN conjunct2, THEN conjunct2, THEN mp, OF ra3e,
                THEN conjunct2, THEN conjunct2, THEN conjunct1, THEN mp, OF enc])
  then have 6: "ReadAt encryptor_bound_transformer osfile_ReadAt [2, 3, 4] 0 3 = Inr [1, 2, 3]"
    by (simp add: E shift_Encryptor_def secret16_def key_byte_def)
  have "Read example_transformer mem_rwc [68, 2, 3, 4] 4 =
        (case Decode shift_Encryptor (secret example_transformer) [68, 2, 3, 4] of
           Inl err \<Rightarrow> (Inl (Errorf ''failed to decrypt data'' err), [])
         | Inr z \<Rightarrow>
             (case Decompress frame_Compressor z of
                Inl err \<Rightarrow> (Inl (Errorf ''failed to decompress data'' err), [])
              | Inr y \<Rightarrow> (Inr y, [])))"
    by (rule T [THEN conjunct2, THEN conjunct2, THEN conjunct2, THEN conjunct2, THEN conjunct2, THEN conjunct2, THEN conjunct2, THEN conjunct2, THEN conjunct1, THEN mp, OF rd4, THEN conjunct2,
                THEN conjunct2, THEN conjunct2, THEN mp, OF both])
  then have 7: "Read example_transformer mem_rwc [68, 2, 3, 4] 4 = (Inr [1, 2, 3], [])"
    by (simp add: example_transformer_simps shift_Encryptor_def frame_Compressor_def
          secret16_def key_byte_def)
  have b: "IsCompressionEnabled example_transformer
             \<and> Compressor example_transformer = Some frame_Compressor"
    using both by simp
  have "Write example_transformer mem_rwc [] [1, 2, 3] =
          (case Compress frame_Compressor [1, 2, 3] of
             Inl err \<Rightarrow> (Inl (Errorf ''failed to compress data'' err), [])
           | Inr z \<Rightarrow> Write (example_transformer\<lparr>Compressor := None\<rparr>) mem_rwc [] z)"
    by (rule T [THEN conjunct2, THEN conjunct2, THEN conjunct1, THEN mp, OF b, THEN conjunct1])
  then have 8: "Write example_transformer mem_rwc [] [1, 2, 3] =
       Write (example_transformer\<lparr>Compressor := None\<rparr>) mem_rwc [] [67, 1, 2, 3]"
    by (simp add: frame_Compressor_def)
  have D: "\<not> IsCompressionEnabled (DisableAll example_transformer)"
      "\<not> IsEncryptionEnabled (DisableAll example_transformer)"
      "Compressor (DisableAll example_transformer) = Some frame_Compressor"
      "Encryptor (DisableAll example_transformer) = Some shift_Encryptor"
    by (simp_all add: DisableAll_def IsCompressionEnabled_def IsEncryptionEnabled_def
          example_transformer_simps)
  then have cleared:
    "\<not> (IsCompressionEnabled (DisableAll example_transformer)
         \<and> Compressor (DisableAll example_transformer) \<noteq> None)
     \<and> \<not> (IsEncryptionEnabled (DisableAll example_transformer)
         \<and> Encryptor (DisableAll example_transformer) \<noteq> None)"
    by simp
  have 9: "Read (DisableAll example_transformer) mem_rwc [1, 2, 3] 3 = (Inr [1, 2, 3], [])"
    by (rule T [THEN conjunct2, THEN conjunct2, THEN conjunct2, THEN conjunct2, THEN conjunct2, THEN conjunct2, THEN conjunct2, THEN conjunct2, THEN conjunct1, THEN mp, OF rd3, THEN conjunct1,
                THEN mp, OF cleared])
  from U E D 1 2 3 4 5 6 7 8 9 show ?thesis by simp
qed

section \<open>Segments\<close>

lemma sint_sub_small:
  fixes a b :: "64 word"
  assumes "b < a" and "uint a - uint b < 2 ^ 63"
  shows "sint (a - b) = uint a - uint b"
proof -
  from assms(1) have le: "uint b \<le> uint a" by (simp add: word_less_def)
  then have u: "uint (a - b) = uint a - uint b" by (simp add: uint_sub_lem)
  have "sint (a - b) = signed_take_bit 63 (uint (a - b))"
    by (simp add: sint_uint)
  also have "\<dots> = uint a - uint b"
    unfolding u using le assms(2) by (simp add: signed_take_bit_int_eq_self)
  finally show ?thesis .
qed

lemma unat_of_nat32: "n < 2 ^ 32 \<Longrightarrow> unat (word_of_nat n :: 32 word) = n"
  by (simp add: unat_of_nat)

lemma size_unat:
  fixes k v :: "32 word"
  assumes "26 + unat k + unat v + 4 < (2 :: nat) ^ 32"
  shows "unat (26 + k + v + 4) = 26 + unat k + unat v + 4"
proof -
  have "unat (26 + k + v + 4) = (26 + unat k + unat v + 4) mod 2 ^ 32"
    by (simp add: unat_word_ariths mod_simps)
  with assms show ?thesis by simp
qed


lemma NewSegment_Inr:
  assumes "NewSegment enc now1 now2 key data ttl = Inr s"
  shows "\<exists>v. enc (ToBSON data) = Inr v \<and> Key s = key \<and> Value s = v
           \<and> KeySize s = word_of_nat (length key) \<and> ValueSize s = word_of_nat (length v)
           \<and> Tombstone s = 0 \<and> snd (toKind data) = None \<and> Type s = fst (toKind data)"
proof -
  obtain kind eo where k: "toKind data = (kind, eo)" by (cases "toKind data") auto
  with assms have eo: "eo = None" by (cases eo) (simp_all add: NewSegment_def)
  show ?thesis
  proof (cases "enc (ToBSON data)")
    case (Inl err)
    with assms k eo show ?thesis by (simp add: NewSegment_def Let_def)
  next
    case (Inr v)
    with assms k eo show ?thesis by (auto simp add: NewSegment_def Let_def)
  qed
qed

text \<open>
  C8, as worded, fails for a key of \<open>2\<^sup>3\<^sup>2\<close> bytes: \<^verbatim>\<open>uint32(len(key))\<close> is 0, so
  \<open>KeySize\<close> is not the length of \<open>Key\<close>, and \<open>Size()\<close> is 30.
\<close>

theorem huge_key_breaks_size_invariant:
  "unat (KeySize (NewTombstoneSegment (replicate 4294967296 0))) = 0
   \<and> length (Key (NewTombstoneSegment (replicate 4294967296 0))) = 4294967296
   \<and> unat (Size (NewTombstoneSegment (replicate 4294967296 0))) = 30"
  by (simp add: NewTombstoneSegment_def Size_def)

text \<open>
  C8, amended. For a key shorter than \<open>2\<^sup>3\<^sup>2\<close> bytes, every Segment that \<open>NewSegment\<close>
  returns with a value shorter than \<open>2\<^sup>3\<^sup>2\<close> bytes, and the tombstone Segment, have
  \<open>KeySize\<close> and \<open>ValueSize\<close> equal to the lengths of \<open>Key\<close> and \<open>Value\<close>; \<open>Size()\<close> is
  \<open>26 + KeySize + ValueSize + 4\<close> in 32-bit arithmetic, and the number
  \<open>26 + len(Key) + len(Value) + 4\<close> when that is below \<open>2\<^sup>3\<^sup>2\<close>. The tombstone has
  \<open>ValueSize = 0\<close>, no value, \<open>IsTombstone()\<close>, and zero \<open>Type\<close>, \<open>ExpiredAt\<close> and
  \<open>CreatedAt\<close>.
\<close>

theorem constructors_size_invariants:
  assumes "length key < 2 ^ 32"
  shows "(\<forall>s. NewSegment enc now1 now2 key data ttl = Inr s \<longrightarrow> length (Value s) < 2 ^ 32 \<longrightarrow>
            unat (KeySize s) = length (Key s)
          \<and> unat (ValueSize s) = length (Value s)
          \<and> Size s = 26 + KeySize s + ValueSize s + 4
          \<and> (26 + length (Key s) + length (Value s) + 4 < 2 ^ 32 \<longrightarrow>
               unat (Size s) = 26 + length (Key s) + length (Value s) + 4))
       \<and> unat (KeySize (NewTombstoneSegment key)) = length (Key (NewTombstoneSegment key))
       \<and> unat (ValueSize (NewTombstoneSegment key)) = length (Value (NewTombstoneSegment key))
       \<and> Size (NewTombstoneSegment key) =
            26 + KeySize (NewTombstoneSegment key) + ValueSize (NewTombstoneSegment key) + 4
       \<and> ValueSize (NewTombstoneSegment key) = 0
       \<and> IsTombstone (NewTombstoneSegment key)
       \<and> Key (NewTombstoneSegment key) = key
       \<and> Value (NewTombstoneSegment key) = []
       \<and> Type (NewTombstoneSegment key) = Set
       \<and> ExpiredAt (NewTombstoneSegment key) = 0
       \<and> CreatedAt (NewTombstoneSegment key) = 0
       \<and> (26 + length key + 4 < 2 ^ 32 \<longrightarrow>
            unat (Size (NewTombstoneSegment key)) = 26 + length key + 4)"
proof -
  have new: "unat (KeySize s) = length (Key s)
          \<and> unat (ValueSize s) = length (Value s)
          \<and> Size s = 26 + KeySize s + ValueSize s + 4
          \<and> (26 + length (Key s) + length (Value s) + 4 < 2 ^ 32 \<longrightarrow>
               unat (Size s) = 26 + length (Key s) + length (Value s) + 4)"
    if s: "NewSegment enc now1 now2 key data ttl = Inr s" and v: "length (Value s) < 2 ^ 32" for s
  proof -
    from NewSegment_Inr [OF s] have f: "Key s = key" "KeySize s = word_of_nat (length key)"
        "ValueSize s = word_of_nat (length (Value s))"
      by auto
    have k: "unat (KeySize s) = length (Key s)"
      using assms by (simp add: f unat_of_nat32)
    have vs: "unat (ValueSize s) = length (Value s)"
      using v f(3) by (simp add: unat_of_nat32)
    have "unat (Size s) = 26 + length (Key s) + length (Value s) + 4"
      if "26 + length (Key s) + length (Value s) + 4 < 2 ^ 32"
      using that size_unat [of "KeySize s" "ValueSize s"] by (simp add: Size_def k vs)
    with k vs show ?thesis by (simp add: Size_def)
  qed
  have tk: "unat (KeySize (NewTombstoneSegment key)) = length key"
    using assms by (simp add: NewTombstoneSegment_def unat_of_nat32)
  have ts: "unat (Size (NewTombstoneSegment key)) = 26 + length key + 4"
    if "26 + length key + 4 < 2 ^ 32"
    using that size_unat [of "KeySize (NewTombstoneSegment key)" 0] tk
    by (simp add: Size_def NewTombstoneSegment_def)
  have rest: "Key (NewTombstoneSegment key) = key" "Value (NewTombstoneSegment key) = []"
      "ValueSize (NewTombstoneSegment key) = 0" "IsTombstone (NewTombstoneSegment key)"
      "Type (NewTombstoneSegment key) = Set" "ExpiredAt (NewTombstoneSegment key) = 0"
      "CreatedAt (NewTombstoneSegment key) = 0"
    by (simp_all add: NewTombstoneSegment_def IsTombstone_def)
  from new tk ts rest show ?thesis by (simp add: Size_def)
qed

theorem constructors_size_invariants_witness:
  "length user1 < 2 ^ 32
   \<and> NewSegment Inr 1793404800000000000 1793404800000000000 user1 number42 0 =
       Inr \<lparr>Tombstone = 0, Type = Number, ExpiredAt = 0, CreatedAt = 1793404800,
            KeySize = 6, ValueSize = 5, Key = user1, Value = [16, 0, 0, 0, 42]\<rparr>
   \<and> unat (Size \<lparr>Tombstone = 0, Type = Number, ExpiredAt = 0, CreatedAt = 1793404800,
            KeySize = 6, ValueSize = 5, Key = user1, Value = [16, 0, 0, 0, 42]\<rparr>) = 41
   \<and> unat (Size (NewTombstoneSegment user1)) = 36"
proof -
  have l: "length user1 < 2 ^ 32" by (simp add: user1_def)
  have n: "NewSegment Inr 1793404800000000000 1793404800000000000 user1 number42 0 =
       Inr \<lparr>Tombstone = 0, Type = Number, ExpiredAt = 0, CreatedAt = 1793404800,
            KeySize = 6, ValueSize = 5, Key = user1, Value = [16, 0, 0, 0, 42]\<rparr>"
    by (simp add: NewSegment_def toKind_def number42_def user1_def)
  let ?S = "\<lparr>Tombstone = 0, Type = Number, ExpiredAt = 0, CreatedAt = 1793404800,
            KeySize = 6, ValueSize = 5, Key = user1, Value = [16, 0, 0, 0, 42]\<rparr>"
  note c = constructors_size_invariants [OF l, of Inr 1793404800000000000 1793404800000000000 number42 0]
  have len: "length user1 = 6" by (simp add: user1_def)
  from c [THEN conjunct1, rule_format, OF n]
  have "26 + length (Key ?S) + length (Value ?S) + 4 < 2 ^ 32 \<longrightarrow>
          unat (Size ?S) = 26 + length (Key ?S) + length (Value ?S) + 4"
    by simp
  then have 1: "unat (Size ?S) = 41"
    by (simp add: len)
  from c have "26 + length user1 + 4 < 2 ^ 32 \<longrightarrow>
                 unat (Size (NewTombstoneSegment user1)) = 26 + length user1 + 4"
    by blast
  then have 2: "unat (Size (NewTombstoneSegment user1)) = 36"
    by (simp add: len)
  from l n 1 2 show ?thesis by blast
qed

text \<open>
  C9, as worded, fails when \<open>ExpiredAt - now\<close> does not fit 63 bits: the conversion to
  \<^verbatim>\<open>int64\<close> makes it negative. \<open>NewSegment\<close> itself produces such a Segment for a
  time-to-live of 9223372037 seconds, whose product with \<^verbatim>\<open>time.Second\<close> wraps to a
  negative duration: \<open>TTL()\<close> is then neither positive nor \<open>-1\<close>.
\<close>

theorem TTL_wraps_negative:
  "NewSegment Inr 1793404800000000000 1793404800000000000 user1 number42 9223372037 =
     Inr \<lparr>Tombstone = 0, Type = Number, ExpiredAt = 18446744066279584379, CreatedAt = 1793404800,
          KeySize = 6, ValueSize = 5, Key = user1, Value = [16, 0, 0, 0, 42]\<rparr>
   \<and> (0 :: 64 word) < 18446744066279584379 \<and> (1793404800 :: 64 word) < 18446744066279584379
   \<and> TTL \<lparr>Tombstone = 0, Type = Number, ExpiredAt = 18446744066279584379, CreatedAt = 1793404800,
          KeySize = 6, ValueSize = 5, Key = user1, Value = [16, 0, 0, 0, 42]\<rparr> 1793404800
       = - 9223372037"
  by (simp add: NewSegment_def toKind_def number42_def user1_def TTL_def)

text \<open>
  C9, amended. When \<open>ExpiredAt > 0\<close>, \<open>ExpiredAt > now\<close> and the difference is below
  \<open>2\<^sup>6\<^sup>3\<close>, \<open>TTL()\<close> is \<open>ExpiredAt - now\<close>, a positive number. When \<open>ExpiredAt = 0\<close> or
  \<open>ExpiredAt \<le> now\<close>, it is \<open>-1\<close>: never expiring and already expired are not told
  apart.
\<close>

theorem TTL_remaining_or_minus_one:
  "(0 < ExpiredAt s \<and> now < ExpiredAt s \<and> uint (ExpiredAt s) - uint now < 2 ^ 63 \<longrightarrow>
      TTL s now = uint (ExpiredAt s) - uint now \<and> 0 < TTL s now)
   \<and> (\<not> (0 < ExpiredAt s \<and> now < ExpiredAt s) \<longrightarrow> TTL s now = - 1)
   \<and> (ExpiredAt s = 0 \<longrightarrow> TTL s now = - 1)
   \<and> (ExpiredAt s \<le> now \<longrightarrow> TTL s now = - 1)"
proof -
  have "TTL s now = uint (ExpiredAt s) - uint now \<and> 0 < TTL s now"
    if "0 < ExpiredAt s" "now < ExpiredAt s" "uint (ExpiredAt s) - uint now < 2 ^ 63"
  proof -
    have "TTL s now = uint (ExpiredAt s) - uint now"
      using that by (simp add: TTL_def sint_sub_small)
    moreover have "uint now < uint (ExpiredAt s)"
      using that(2) by (simp add: word_less_def)
    ultimately show ?thesis by simp
  qed
  moreover have "TTL s now = - 1" if "\<not> (0 < ExpiredAt s \<and> now < ExpiredAt s)"
    using that by (auto simp add: TTL_def)
  moreover have "TTL s now = - 1" if "ExpiredAt s = 0"
    using that by (simp add: TTL_def)
  moreover have "TTL s now = - 1" if "ExpiredAt s \<le> now"
    using that by (auto simp add: TTL_def)
  ultimately show ?thesis by blast
qed

theorem TTL_remaining_or_minus_one_witness:
  "TTL (NewTombstoneSegment user1 \<lparr>ExpiredAt := 1793404810\<rparr>) 1793404800 = 10
   \<and> TTL (NewTombstoneSegment user1) 1793404800 = - 1
   \<and> TTL (NewTombstoneSegment user1 \<lparr>ExpiredAt := 1793404790\<rparr>) 1793404800 = - 1"
proof -
  let ?s = "NewTombstoneSegment user1 \<lparr>ExpiredAt := 1793404810\<rparr>"
  let ?p = "NewTombstoneSegment user1 \<lparr>ExpiredAt := 1793404790\<rparr>"
  have h: "0 < ExpiredAt ?s \<and> 1793404800 < ExpiredAt ?s
             \<and> uint (ExpiredAt ?s) - uint (1793404800 :: 64 word) < 2 ^ 63"
    by simp
  from TTL_remaining_or_minus_one [of ?s 1793404800] h
  have "TTL ?s 1793404800 = uint (ExpiredAt ?s) - uint (1793404800 :: 64 word)" by blast
  then have 1: "TTL ?s 1793404800 = 10" by simp
  have "ExpiredAt (NewTombstoneSegment user1) = 0" by (simp add: NewTombstoneSegment_def)
  with TTL_remaining_or_minus_one [of "NewTombstoneSegment user1" 1793404800]
  have 2: "TTL (NewTombstoneSegment user1) 1793404800 = - 1" by blast
  have "ExpiredAt ?p \<le> 1793404800" by simp
  with TTL_remaining_or_minus_one [of ?p 1793404800]
  have 3: "TTL ?p 1793404800 = - 1" by blast
  from 1 2 3 show ?thesis by blast
qed

text \<open>
  What the projections do: \<open>ToSet\<close> is absent on a mismatch and the zero value on a
  match; the other six are absent for every Segment.
\<close>

lemma ToSet_cases:
  "ToSet zero_Set s = (if Type s = Set then Some zero_Set else None)"
  by (simp add: ToSet_def)

lemma projections_always_absent:
  "ToZSet s = None" "ToText s = None" "ToList s = None"
  "ToTables s = None" "ToBinary s = None" "ToNumber s = None"
  by (simp_all add: ToZSet_def ToText_def ToList_def ToTables_def ToBinary_def ToNumber_def)

text \<open>
  C4. On a matching \<open>Type\<close> the projections are claimed to reverse the pipeline on
  \<open>Value\<close> and deserialize it. \<open>ToNumber\<close> returns \<^verbatim>\<open>nil\<close> for a Segment of type
  \<open>Number\<close>, and \<open>ToSet\<close> returns the same fresh empty value for two Segments of type
  \<open>Set\<close> whose values differ.
\<close>

theorem projections_ignore_Value:
  "Type \<lparr>Tombstone = 0, Type = Number, ExpiredAt = 0, CreatedAt = 1793404800,
         KeySize = 6, ValueSize = 5, Key = user1, Value = [16, 0, 0, 0, 42]\<rparr> = Number
   \<and> (ToNumber \<lparr>Tombstone = 0, Type = Number, ExpiredAt = 0, CreatedAt = 1793404800,
         KeySize = 6, ValueSize = 5, Key = user1, Value = [16, 0, 0, 0, 42]\<rparr> :: int option) = None
   \<and> ToSet ([] :: bytes list) \<lparr>Tombstone = 0, Type = Set, ExpiredAt = 0, CreatedAt = 1793404800,
         KeySize = 6, ValueSize = 1, Key = user1, Value = [1]\<rparr>
     = ToSet [] \<lparr>Tombstone = 0, Type = Set, ExpiredAt = 0, CreatedAt = 1793404800,
         KeySize = 6, ValueSize = 1, Key = user1, Value = [2]\<rparr>"
  by (simp add: ToNumber_def ToSet_def)

end
